theory Spec2Isabelle
  imports Main "HOL-Library.Sublist"
begin

section \<open>The user collection\<close>

text \<open>
  A user document as \<^verbatim>\<open>user.model.ts\<close> declares it (\<^verbatim>\<open>IUser\<close> and \<^verbatim>\<open>userSchema\<close>).
  \<^verbatim>\<open>uid\<close> is the document's \<^verbatim>\<open>_id\<close> in its string form; \<^verbatim>\<open>username\<close> is the one optional
  path. The three relation lists hold user identifiers as strings, in the order they
  were stored. The two timestamps are left out: no operation below reads them.
\<close>

record user =
  uid :: string
  email :: string
  password :: string
  full_name :: string
  username :: "string option"
  bio :: string
  profile_image :: string
  cover_image :: string
  location :: string
  followers :: "string list"
  following :: "string list"
  connections :: "string list"

text \<open>The collection is the list of its documents, in their natural order.\<close>

type_synonym db = "user list"

text \<open>
  What a JavaScript \<^verbatim>\<open>throw\<close> carries: \<^verbatim>\<open>new Error(message)\<close>, a bare string
  (\<^verbatim>\<open>throw "User not found"\<close> in the route-mounted controller), the cast error
  Mongoose raises for an identifier that is no ObjectId, or the validation error of a
  \<^verbatim>\<open>save()\<close> whose document does not pass its schema.
\<close>

datatype error = Error string | Thrown string | CastError | ValidationError

fun error_message :: "error \<Rightarrow> string" where
  "error_message (Error m) = m"
| "error_message (Thrown m) = m"
| "error_message CastError = ''Cast to ObjectId failed''"
| "error_message ValidationError = ''User validation failed''"

text \<open>
  \<^verbatim>\<open>mongoose.Types.ObjectId.isValid\<close> on a string: the 24 hexadecimal digits of an
  ObjectId. The same test decides whether Mongoose can cast the identifier of a
  \<^verbatim>\<open>findById\<close> query.
\<close>

definition isHexDigit :: "char \<Rightarrow> bool" where
  "isHexDigit c = (c \<in> set ''0123456789abcdefABCDEF'')"

definition isValid :: "string \<Rightarrow> bool" where
  "isValid s = (length s = 24 \<and> list_all isHexDigit s)"

text \<open>
  An identifier string is cast to an ObjectId before it is compared with an \<^verbatim>\<open>_id\<close>, and
  the hexadecimal digits of an ObjectId have no case: \<open>oid\<close> is the ObjectId of a
  string, written in lower case as \<^verbatim>\<open>toString()\<close> writes it. Two strings address the same
  document when their \<open>oid\<close> is the same.
\<close>

definition hexLower :: "char \<Rightarrow> char" where
  "hexLower c = (case map_of (zip ''ABCDEF'' ''abcdef'') c of None \<Rightarrow> c | Some l \<Rightarrow> l)"

definition oid :: "string \<Rightarrow> string" where
  "oid s = map hexLower s"

text \<open>\<^verbatim>\<open>User.findById\<close> and \<^verbatim>\<open>User.findOne({ username })\<close> on the collection.\<close>

definition findById :: "string \<Rightarrow> db \<Rightarrow> user option" where
  "findById i d = find (\<lambda>u. oid (uid u) = oid i) d"

definition findOne_username :: "string \<Rightarrow> db \<Rightarrow> user option" where
  "findOne_username n d = find (\<lambda>u. username u = Some n) d"

text \<open>An update of the one document with the given identifier; no document, no change.\<close>

fun updateById :: "string \<Rightarrow> (user \<Rightarrow> user) \<Rightarrow> db \<Rightarrow> db" where
  "updateById i f [] = []"
| "updateById i f (u # us) =
     (if oid (uid u) = oid i then f u # us else u # updateById i f us)"

text \<open>
  \<^verbatim>\<open>doc.save()\<close> validates the loaded document against \<^verbatim>\<open>userSchema\<close> first: \<^verbatim>\<open>email\<close>,
  \<^verbatim>\<open>full_name\<close> and \<^verbatim>\<open>password\<close> are required, and an empty string does not satisfy
  \<^verbatim>\<open>required\<close>. A document that fails makes \<^verbatim>\<open>save()\<close> throw before anything is written.
  (Such a document can be stored: \<^verbatim>\<open>findByIdAndUpdate\<close> runs no validators.)
\<close>

definition validates :: "user \<Rightarrow> bool" where
  "validates doc = (email doc \<noteq> [] \<and> full_name doc \<noteq> [] \<and> password doc \<noteq> [])"

text \<open>
  \<^verbatim>\<open>doc.save()\<close> after a change to one path: once the document validates, that path of
  the stored document is written and no other (Mongoose saves the modified paths of a
  document, not the whole document).
\<close>

definition save_following :: "user \<Rightarrow> db \<Rightarrow> (error + unit) \<times> db" where
  "save_following doc d =
     (if \<not> validates doc then (Inl ValidationError, d)
      else (Inr (), updateById (uid doc) (\<lambda>u. u\<lparr>following := following doc\<rparr>) d))"

definition save_followers :: "user \<Rightarrow> db \<Rightarrow> (error + unit) \<times> db" where
  "save_followers doc d =
     (if \<not> validates doc then (Inl ValidationError, d)
      else (Inr (), updateById (uid doc) (\<lambda>u. u\<lparr>followers := followers doc\<rparr>) d))"

section \<open>The guarded relationship service (core/controller/userController.ts)\<close>

text \<open>\<^verbatim>\<open>UserService.findUserById\<close>: rejects an identifier that is no ObjectId, then looks it up.\<close>

definition findUserById :: "string \<Rightarrow> db \<Rightarrow> error + user option" where
  "findUserById userId d =
     (if \<not> isValid userId then Inl (Error ''Invalid user ID format'')
      else Inr (findById userId d))"

text \<open>
  \<^verbatim>\<open>UserService.addFollowing\<close>. The result pairs what the call returned or threw with
  the collection it left behind. Both documents are loaded before either is written;
  the lists are searched with \<^verbatim>\<open>includes\<close>, which compares the strings as they are.
\<close>

definition addFollowing :: "string \<Rightarrow> string \<Rightarrow> db \<Rightarrow> (error + unit) \<times> db" where
  "addFollowing userId followId d =
     (case findUserById userId d of
        Inl e \<Rightarrow> (Inl e, d)
      | Inr None \<Rightarrow> (Inl (Error ''User not found''), d)
      | Inr (Some usr) \<Rightarrow>
          (case findUserById followId d of
             Inl e \<Rightarrow> (Inl e, d)
           | Inr None \<Rightarrow> (Inl (Error ''User to follow not found''), d)
           | Inr (Some userToFollow) \<Rightarrow>
               if followId \<in> set (following usr)
               then (Inl (Error ''Already following this user''), d)
               else
                 (case save_following (usr\<lparr>following := following usr @ [followId]\<rparr>) d of
                    (Inl e, d1) \<Rightarrow> (Inl e, d1)
                  | (Inr _, d1) \<Rightarrow>
                      if userId \<notin> set (followers userToFollow)
                      then save_followers
                             (userToFollow\<lparr>followers := followers userToFollow @ [userId]\<rparr>) d1
                      else (Inr (), d1))))"

text \<open>
  \<^verbatim>\<open>UserService.removeFollowing\<close>. The unfollowed user is loaded after the first save, and
  that lookup can still throw (an identifier in the list that is no ObjectId).
\<close>

definition removeFollowing :: "string \<Rightarrow> string \<Rightarrow> db \<Rightarrow> (error + unit) \<times> db" where
  "removeFollowing userId unfollowId d =
     (case findUserById userId d of
        Inl e \<Rightarrow> (Inl e, d)
      | Inr None \<Rightarrow> (Inl (Error ''User not found''), d)
      | Inr (Some usr) \<Rightarrow>
          if unfollowId \<notin> set (following usr)
          then (Inl (Error ''You are not following this user''), d)
          else
            (case save_following
                    (usr\<lparr>following := filter (\<lambda>i. i \<noteq> unfollowId) (following usr)\<rparr>) d of
               (Inl e, d1) \<Rightarrow> (Inl e, d1)
             | (Inr _, d1) \<Rightarrow>
                 (case findUserById unfollowId d1 of
                    Inl e \<Rightarrow> (Inl e, d1)
                  | Inr None \<Rightarrow> (Inr (), d1)
                  | Inr (Some userToUnfollow) \<Rightarrow>
                      if userId \<in> set (followers userToUnfollow)
                      then save_followers
                             (userToUnfollow\<lparr>followers :=
                                filter (\<lambda>i. i \<noteq> userId) (followers userToUnfollow)\<rparr>) d1
                      else (Inr (), d1))))"

section \<open>The guarded controller\<close>

text \<open>
  The JSON object of a user document (\<^verbatim>\<open>toObject()\<close>): every path of the document, the
  \<^verbatim>\<open>password\<close> key present (\<open>Some\<close>) or removed (\<open>None\<close>).
\<close>

record user_object =
  o_id :: string
  o_email :: string
  o_password :: "string option"
  o_full_name :: string
  o_username :: "string option"
  o_bio :: string
  o_profile_image :: string
  o_cover_image :: string
  o_location :: string
  o_followers :: "string list"
  o_following :: "string list"
  o_connections :: "string list"

definition toObject :: "user \<Rightarrow> user_object" where
  "toObject u =
     \<lparr>o_id = uid u, o_email = email u, o_password = Some (password u),
      o_full_name = full_name u, o_username = username u, o_bio = bio u,
      o_profile_image = profile_image u, o_cover_image = cover_image u,
      o_location = location u, o_followers = followers u, o_following = following u,
      o_connections = connections u\<rparr>"

text \<open>\<^verbatim>\<open>const { password, ...safeUser } = user.toObject()\<close>.\<close>

definition safeUser :: "user \<Rightarrow> user_object" where
  "safeUser u = (toObject u)\<lparr>o_password := None\<rparr>"

text \<open>The JSON bodies the guarded controller sends, and a response: status and body.\<close>

datatype body =
    Message string
  | ErrorBody string string
  | UserBody user_object
  | UserWrapped user_object
  | UpdateOk user_object
  | UsersBody "user_object list"

type_synonym response = "nat \<times> body"

text \<open>\<^verbatim>\<open>BaseController.handleError\<close>: status 500, the handler's message and the error's.\<close>

definition handleError :: "error \<Rightarrow> string \<Rightarrow> response" where
  "handleError e msg = (500, ErrorBody msg (error_message e))"

text \<open>
  \<^verbatim>\<open>BaseController.validateAuthentication\<close> on \<^verbatim>\<open>req.user?.id\<close>: a missing or empty
  identifier is no identity.
\<close>

definition validateAuthentication :: "string option \<Rightarrow> string option" where
  "validateAuthentication req_user =
     (case req_user of None \<Rightarrow> None | Some i \<Rightarrow> if i = [] then None else Some i)"

text \<open>
  \<^verbatim>\<open>UserController.followUser\<close>: the caller's identity from the request, \<^verbatim>\<open>followId\<close> from
  its body.
\<close>

definition followUser :: "string option \<Rightarrow> string \<Rightarrow> db \<Rightarrow> response \<times> db" where
  "followUser req_user followId d =
     (case validateAuthentication req_user of
        None \<Rightarrow> ((401, Message ''Unauthorized''), d)
      | Some userId \<Rightarrow>
          if userId = followId then ((400, Message ''You cannot follow yourself''), d)
          else
            (case addFollowing userId followId d of
               (Inr _, d') \<Rightarrow> ((200, Message ''Now you are following this user''), d')
             | (Inl e, d') \<Rightarrow>
                 if e = Error ''Already following this user''
                    \<or> e = Error ''User to follow not found''
                 then ((400, Message (error_message e)), d')
                 else (handleError e ''Error in followUser'', d')))"

text \<open>\<^verbatim>\<open>UserController.unfollowUser\<close>.\<close>

definition unfollowUser :: "string option \<Rightarrow> string \<Rightarrow> db \<Rightarrow> response \<times> db" where
  "unfollowUser req_user unfollowId d =
     (case validateAuthentication req_user of
        None \<Rightarrow> ((401, Message ''Unauthorized''), d)
      | Some userId \<Rightarrow>
          if userId = unfollowId then ((400, Message ''You cannot unfollow yourself''), d)
          else
            (case removeFollowing userId unfollowId d of
               (Inr _, d') \<Rightarrow> ((200, Message ''You have unfollowed this user''), d')
             | (Inl e, d') \<Rightarrow>
                 if e = Error ''You are not following this user''
                 then ((400, Message (error_message e)), d')
                 else (handleError e ''Error in unfollowUser'', d')))"

section \<open>The route-mounted relationship service (modules/user/services/user.service.ts)\<close>

text \<open>The update operators \<^verbatim>\<open>$addToSet\<close> and \<^verbatim>\<open>$pull\<close> on one array.\<close>

definition addToSet :: "string \<Rightarrow> string list \<Rightarrow> string list" where
  "addToSet x xs = (if x \<in> set xs then xs else xs @ [x])"

definition pull :: "string \<Rightarrow> string list \<Rightarrow> string list" where
  "pull x xs = filter (\<lambda>y. y \<noteq> x) xs"

text \<open>
  \<^verbatim>\<open>User.findByIdAndUpdate(id, update)\<close>: the identifier is cast first (a cast error
  rejects the call before anything is written); an identifier of no document updates
  nothing and is no error. No validator runs.
\<close>

definition findByIdAndUpdate :: "string \<Rightarrow> (user \<Rightarrow> user) \<Rightarrow> db \<Rightarrow> (error + unit) \<times> db" where
  "findByIdAndUpdate i f d =
     (if \<not> isValid i then (Inl CastError, d) else (Inr (), updateById i f d))"

text \<open>\<^verbatim>\<open>UserService.followUser\<close>, \<^verbatim>\<open>unfollowUser\<close> and \<^verbatim>\<open>connectUsers\<close>: two updates in a row.\<close>

definition svc_followUser :: "string \<Rightarrow> string \<Rightarrow> db \<Rightarrow> (error + unit) \<times> db" where
  "svc_followUser userId targetId d =
     (case findByIdAndUpdate userId (\<lambda>u. u\<lparr>following := addToSet targetId (following u)\<rparr>) d of
        (Inl e, d1) \<Rightarrow> (Inl e, d1)
      | (Inr _, d1) \<Rightarrow>
          findByIdAndUpdate targetId (\<lambda>u. u\<lparr>followers := addToSet userId (followers u)\<rparr>) d1)"

definition svc_unfollowUser :: "string \<Rightarrow> string \<Rightarrow> db \<Rightarrow> (error + unit) \<times> db" where
  "svc_unfollowUser userId targetId d =
     (case findByIdAndUpdate userId (\<lambda>u. u\<lparr>following := pull targetId (following u)\<rparr>) d of
        (Inl e, d1) \<Rightarrow> (Inl e, d1)
      | (Inr _, d1) \<Rightarrow>
          findByIdAndUpdate targetId (\<lambda>u. u\<lparr>followers := pull userId (followers u)\<rparr>) d1)"

definition svc_connectUsers :: "string \<Rightarrow> string \<Rightarrow> db \<Rightarrow> (error + unit) \<times> db" where
  "svc_connectUsers userId targetId d =
     (case findByIdAndUpdate userId (\<lambda>u. u\<lparr>connections := addToSet targetId (connections u)\<rparr>) d of
        (Inl e, d1) \<Rightarrow> (Inl e, d1)
      | (Inr _, d1) \<Rightarrow>
          findByIdAndUpdate targetId (\<lambda>u. u\<lparr>connections := addToSet userId (connections u)\<rparr>) d1)"

section \<open>The image host and CloudinaryService\<close>

text \<open>
  The hosted image service is outside the program. It is a parameter of the model:
  for every publicId whether \<^verbatim>\<open>uploader.destroy\<close> resolves, and for every upload (the
  image data, the folder) whether it is rejected, with which message, or resolved, with
  which \<^verbatim>\<open>secure_url\<close>. \<^verbatim>\<open>max_size\<close> is the configured \<^verbatim>\<open>MAX_FILE_SIZE\<close>.
\<close>

datatype upload_outcome = Rejected string | Resolved string

record cloudinary =
  max_size :: nat
  destroy :: "string \<Rightarrow> bool"
  upload :: "string \<Rightarrow> string \<Rightarrow> upload_outcome"

text \<open>
  An uploaded file as multer hands it over, held in memory or on disk. The file the
  route-mounted controller builds itself has no \<^verbatim>\<open>size\<close>.
\<close>

record multer_file =
  mimetype :: string
  file_size :: "nat option"
  buffer :: "string option"
  path :: "string option"

definition allowedTypes :: "string list" where
  "allowedTypes = [''image/jpeg'', ''image/jpg'', ''image/png'', ''image/webp'']"

text \<open>
  \<^verbatim>\<open>if (!uploadResult || !uploadResult.secure_url) throw ...\<close>, then the URL is returned.
\<close>

definition checked_url :: "string \<Rightarrow> error + string" where
  "checked_url url =
     (if url = [] then Inl (Error ''Upload successful but no URL returned'') else Inr url)"

text \<open>
  \<^verbatim>\<open>CloudinaryService.uploadImage(file, folder)\<close> of userController.ts: the body of its
  \<^verbatim>\<open>try\<close>, then the \<^verbatim>\<open>catch\<close> that rethrows every failure as
  \<^verbatim>\<open>Cloudinary upload failed: ...\<close>. The size the message of an oversized file quotes and
  the removal of the temporary file are left out.
\<close>

definition uploadImage_try :: "cloudinary \<Rightarrow> multer_file \<Rightarrow> string \<Rightarrow> error + string" where
  "uploadImage_try cl file folder =
     (if mimetype file \<notin> set allowedTypes
      then Inl (Error ''Invalid file type. Only JPEG, JPG, PNG, and WebP are allowed.'')
      else if (case file_size file of None \<Rightarrow> False | Some n \<Rightarrow> n > max_size cl)
      then Inl (Error ''File size too large.'')
      else
        (case buffer file of
           Some b \<Rightarrow>
             (case upload cl b folder of
                Rejected m \<Rightarrow> Inl (Error (''Upload failed: '' @ m))
              | Resolved url \<Rightarrow> checked_url url)
         | None \<Rightarrow>
             (case path file of
                Some (c # p) \<Rightarrow>
                  (case upload cl (c # p) folder of
                     Rejected m \<Rightarrow> Inl (Error m)
                   | Resolved url \<Rightarrow> checked_url url)
              | _ \<Rightarrow> Inl (Error ''Invalid file data: neither buffer nor path available''))))"

definition uploadImage :: "cloudinary \<Rightarrow> multer_file \<Rightarrow> string \<Rightarrow> error + string" where
  "uploadImage cl file folder =
     (case uploadImage_try cl file folder of
        Inl e \<Rightarrow> Inl (Error (''Cloudinary upload failed: '' @ error_message e))
      | Inr url \<Rightarrow> Inr url)"

section \<open>The guarded profile update (UserController.updateUserId)\<close>

text \<open>\<^verbatim>\<open>UpdateUserData\<close>: every key optional.\<close>

record update_user_data =
  ud_username :: "string option"
  ud_bio :: "string option"
  ud_location :: "string option"
  ud_full_name :: "string option"
  ud_profile :: "string option"
  ud_cover :: "string option"

text \<open>
  \<^verbatim>\<open>User.findByIdAndUpdate(userId, updateData, { new: true })\<close> on one document: a key
  that is \<^verbatim>\<open>undefined\<close> is dropped from the update, and so are \<^verbatim>\<open>profile\<close> and \<^verbatim>\<open>cover\<close>,
  which are no paths of \<^verbatim>\<open>userSchema\<close> (its image paths are \<^verbatim>\<open>profile_image\<close> and
  \<^verbatim>\<open>cover_image\<close>; the schema is strict).
\<close>

definition apply_update_data :: "update_user_data \<Rightarrow> user \<Rightarrow> user" where
  "apply_update_data upd u =
     u\<lparr>username := (case ud_username upd of None \<Rightarrow> username u | Some n \<Rightarrow> Some n),
       bio := (case ud_bio upd of None \<Rightarrow> bio u | Some b \<Rightarrow> b),
       location := (case ud_location upd of None \<Rightarrow> location u | Some l \<Rightarrow> l),
       full_name := (case ud_full_name upd of None \<Rightarrow> full_name u | Some f \<Rightarrow> f)\<rparr>"

text \<open>\<^verbatim>\<open>UserService.updateUser\<close> of userController.ts; it returns the updated document.\<close>

definition core_updateUser ::
  "string \<Rightarrow> update_user_data \<Rightarrow> db \<Rightarrow> (error + user option) \<times> db" where
  "core_updateUser userId upd d =
     (if \<not> isValid userId then (Inl (Error ''Invalid user ID format''), d)
      else (Inr (map_option (apply_update_data upd) (findById userId d)),
            updateById userId (apply_update_data upd) d))"

text \<open>
  The request of a profile update: the identity the authentication attached
  (\<^verbatim>\<open>req.user?.id\<close>), the four text fields of the body, and the first file of each of the
  two upload fields.
\<close>

record update_request =
  r_user :: "string option"
  b_username :: "string option"
  b_bio :: "string option"
  b_location :: "string option"
  b_full_name :: "string option"
  f_profile :: "multer_file option"
  f_cover :: "multer_file option"

text \<open>
  \<^verbatim>\<open>currentUser.profile\<close> and \<^verbatim>\<open>currentUser.cover\<close>. \<^verbatim>\<open>userSchema\<close> declares
  \<^verbatim>\<open>profile_image\<close> and \<^verbatim>\<open>cover_image\<close> and no path \<^verbatim>\<open>profile\<close> or \<^verbatim>\<open>cover\<close>, so a
  document has no such property and both read as \<^verbatim>\<open>undefined\<close>.
\<close>

definition doc_profile :: "user \<Rightarrow> string option" where
  "doc_profile u = None"

definition doc_cover :: "user \<Rightarrow> string option" where
  "doc_cover u = None"

text \<open>
  \<^verbatim>\<open>imageUrl.split('/')\<close> and \<^verbatim>\<open>parts.join('/')\<close>.
\<close>

fun split_slash :: "string \<Rightarrow> string list" where
  "split_slash [] = [[]]"
| "split_slash (c # cs) =
     (if c = CHR ''/'' then [] # split_slash cs
      else (case split_slash cs of [] \<Rightarrow> [[c]] | p # ps \<Rightarrow> (c # p) # ps))"

fun join_slash :: "string list \<Rightarrow> string" where
  "join_slash [] = []"
| "join_slash [p] = p"
| "join_slash (p # q # ps) = p @ ''/'' @ join_slash (q # ps)"

text \<open>
  \<^verbatim>\<open>s.replace(/\.[^/.]+$/, '')\<close>: a final dot followed by at least one character, none
  of them a dot or a slash, is cut off; any other string is returned as it is.
\<close>

definition strip_extension :: "string \<Rightarrow> string" where
  "strip_extension s =
     (let r = rev s;
          ext = takeWhile (\<lambda>c. c \<noteq> CHR ''/'' \<and> c \<noteq> CHR ''.'') r;
          rest = dropWhile (\<lambda>c. c \<noteq> CHR ''/'' \<and> c \<noteq> CHR ''.'') r
      in (case rest of
            [] \<Rightarrow> s
          | c # before \<Rightarrow> if c = CHR ''.'' \<and> ext \<noteq> [] then rev before else s))"

text \<open>
  \<^verbatim>\<open>CloudinaryService.extractPublicId\<close>: everything after the part that follows
  \<^verbatim>\<open>upload\<close> (the version), without the file extension; \<^verbatim>\<open>null\<close> when no part of the
  URL is \<^verbatim>\<open>upload\<close>.
\<close>

definition extractPublicId :: "string \<Rightarrow> string option" where
  "extractPublicId imageUrl =
     (case dropWhile (\<lambda>part. part \<noteq> ''upload'') (split_slash imageUrl) of
        [] \<Rightarrow> None
      | found # after \<Rightarrow> Some (strip_extension (join_slash (drop 1 after))))"

text \<open>The calls that reach the image host, in the order they are made.\<close>

datatype host_call = Destroy string | Upload string string

text \<open>
  \<^verbatim>\<open>CloudinaryService.deleteImage\<close> (the same in userController.ts and in the service
  file): the body of its \<^verbatim>\<open>try\<close>, where a rejected \<^verbatim>\<open>destroy\<close> throws, and the whole
  method, whose \<^verbatim>\<open>catch\<close> only logs. An empty publicId is not sent.
\<close>

definition deleteImage_try :: "cloudinary \<Rightarrow> string \<Rightarrow> (error + unit) \<times> host_call list" where
  "deleteImage_try cl imageUrl =
     (case extractPublicId imageUrl of
        None \<Rightarrow> (Inr (), [])
      | Some [] \<Rightarrow> (Inr (), [])
      | Some (c # pid) \<Rightarrow>
          if destroy cl (c # pid) then (Inr (), [Destroy (c # pid)])
          else (Inl (Error ''destroy rejected''), [Destroy (c # pid)]))"

definition deleteImage :: "cloudinary \<Rightarrow> string \<Rightarrow> (error + unit) \<times> host_call list" where
  "deleteImage cl imageUrl =
     (case deleteImage_try cl imageUrl of
        (Inl e, calls) \<Rightarrow> (Inr (), calls)
      | (Inr x, calls) \<Rightarrow> (Inr x, calls))"

text \<open>\<^verbatim>\<open>UserController.handleImageUploads\<close>: the update data with the new URLs stored.\<close>

definition handleImageUploads ::
  "cloudinary \<Rightarrow> update_request \<Rightarrow> update_user_data \<Rightarrow> user \<Rightarrow> error + update_user_data" where
  "handleImageUploads cl req updatedData currentUser =
     (case (case f_profile req of
              None \<Rightarrow> Inr updatedData
            | Some profile \<Rightarrow>
                (case (case doc_profile currentUser of
                         Some (c # old) \<Rightarrow> fst (deleteImage cl (c # old))
                       | _ \<Rightarrow> Inr ()) of
                   Inl e \<Rightarrow> Inl e
                 | Inr _ \<Rightarrow>
                     (case uploadImage cl profile ''profiles'' of
                        Inl e \<Rightarrow> Inl e
                      | Inr url \<Rightarrow> Inr (updatedData\<lparr>ud_profile := Some url\<rparr>)))) of
        Inl e \<Rightarrow> Inl e
      | Inr data1 \<Rightarrow>
          (case f_cover req of
             None \<Rightarrow> Inr data1
           | Some cover \<Rightarrow>
               (case (case doc_cover currentUser of
                        Some (c # old) \<Rightarrow> fst (deleteImage cl (c # old))
                      | _ \<Rightarrow> Inr ()) of
                  Inl e \<Rightarrow> Inl e
                | Inr _ \<Rightarrow>
                    (case uploadImage cl cover ''covers'' of
                       Inl e \<Rightarrow> Inl e
                     | Inr url \<Rightarrow> Inr (data1\<lparr>ud_cover := Some url\<rparr>)))))"

text \<open>
  \<^verbatim>\<open>UserController.updateUserId\<close>. A request without a (non-empty) username returns the
  stored user at once; otherwise the requested username is taken over only if it
  differs from the current one and no document has it. Should the update find no
  document, \<^verbatim>\<open>updatedUser.toObject()\<close> throws a TypeError (its message is shortened here).
\<close>

definition updateUserId :: "cloudinary \<Rightarrow> update_request \<Rightarrow> db \<Rightarrow> response \<times> db" where
  "updateUserId cl req d =
     (case validateAuthentication (r_user req) of
        None \<Rightarrow> ((401, Message ''Unauthorized''), d)
      | Some userId \<Rightarrow>
          (case findUserById userId d of
             Inl e \<Rightarrow> (handleError e ''Error in updateUserId'', d)
           | Inr None \<Rightarrow> ((404, Message ''User not found''), d)
           | Inr (Some tempUser) \<Rightarrow>
               (case b_username req of
                  None \<Rightarrow> ((200, UserWrapped (safeUser tempUser)), d)
                | Some [] \<Rightarrow> ((200, UserWrapped (safeUser tempUser)), d)
                | Some (c # cs) \<Rightarrow>
                    let finalUsername =
                          (if username tempUser \<noteq> Some (c # cs)
                           then (case findOne_username (c # cs) d of
                                   None \<Rightarrow> Some (c # cs)
                                 | Some existingUser \<Rightarrow> username tempUser)
                           else username tempUser);
                        updatedData =
                          \<lparr>ud_username = finalUsername, ud_bio = b_bio req,
                           ud_location = b_location req, ud_full_name = b_full_name req,
                           ud_profile = None, ud_cover = None\<rparr>
                    in (case handleImageUploads cl req updatedData tempUser of
                          Inl e \<Rightarrow> (handleError e ''Error in updateUserId'', d)
                        | Inr data \<Rightarrow>
                            (case core_updateUser (uid tempUser) data d of
                               (Inl e, d') \<Rightarrow> (handleError e ''Error in updateUserId'', d')
                             | (Inr None, d') \<Rightarrow>
                                 (handleError (Error ''Cannot read properties of null'')
                                    ''Error in updateUserId'', d')
                             | (Inr (Some updatedUser), d') \<Rightarrow>
                                 ((200, UpdateOk (safeUser updatedUser)), d'))))))"

section \<open>The second copy of the guarded profile update (unnamed/part_003)\<close>

text \<open>
  The same controller in its other copy: the two images arrive as strings in the body
  (\<^verbatim>\<open>profile\<close>, \<^verbatim>\<open>cover\<close>), \<^verbatim>\<open>uploadImage\<close> hands the string to the host without
  validating anything, and errors are answered by the copy's own \<^verbatim>\<open>handleRequest\<close>
  (status 500, \<^verbatim>\<open>Server error\<close>). The username logic is the same.
\<close>

record body_update_request =
  r3_user :: "string option"
  b3_username :: "string option"
  b3_bio :: "string option"
  b3_location :: "string option"
  b3_full_name :: "string option"
  b3_profile :: "string option"
  b3_cover :: "string option"

definition p3_uploadImage :: "cloudinary \<Rightarrow> string \<Rightarrow> string \<Rightarrow> error + string" where
  "p3_uploadImage cl imageData folder =
     (case upload cl imageData folder of
        Rejected m \<Rightarrow> Inl (Error m)
      | Resolved url \<Rightarrow> checked_url url)"

definition p3_handleImageUploads ::
  "cloudinary \<Rightarrow> body_update_request \<Rightarrow> update_user_data \<Rightarrow> user \<Rightarrow> error + update_user_data" where
  "p3_handleImageUploads cl req updatedData currentUser =
     (case (case b3_profile req of
              Some (p # ps) \<Rightarrow>
                (case (case doc_profile currentUser of
                         Some (c # old) \<Rightarrow> fst (deleteImage cl (c # old))
                       | _ \<Rightarrow> Inr ()) of
                   Inl e \<Rightarrow> Inl e
                 | Inr _ \<Rightarrow>
                     (case p3_uploadImage cl (p # ps) ''profiles'' of
                        Inl e \<Rightarrow> Inl e
                      | Inr url \<Rightarrow> Inr (updatedData\<lparr>ud_profile := Some url\<rparr>)))
            | _ \<Rightarrow> Inr updatedData) of
        Inl e \<Rightarrow> Inl e
      | Inr data1 \<Rightarrow>
          (case b3_cover req of
             Some (p # ps) \<Rightarrow>
               (case (case doc_cover currentUser of
                        Some (c # old) \<Rightarrow> fst (deleteImage cl (c # old))
                      | _ \<Rightarrow> Inr ()) of
                  Inl e \<Rightarrow> Inl e
                | Inr _ \<Rightarrow>
                    (case p3_uploadImage cl (p # ps) ''covers'' of
                       Inl e \<Rightarrow> Inl e
                     | Inr url \<Rightarrow> Inr (data1\<lparr>ud_cover := Some url\<rparr>)))
           | _ \<Rightarrow> Inr data1))"

definition p3_serverError :: "error \<Rightarrow> response" where
  "p3_serverError e = (500, ErrorBody ''Server error'' (error_message e))"

definition p3_updateUserId :: "cloudinary \<Rightarrow> body_update_request \<Rightarrow> db \<Rightarrow> response \<times> db" where
  "p3_updateUserId cl req d =
     (case validateAuthentication (r3_user req) of
        None \<Rightarrow> ((401, Message ''Unauthorized''), d)
      | Some userId \<Rightarrow>
          (case findUserById userId d of
             Inl e \<Rightarrow> (p3_serverError e, d)
           | Inr None \<Rightarrow> ((404, Message ''User not found''), d)
           | Inr (Some tempUser) \<Rightarrow>
               (case b3_username req of
                  None \<Rightarrow> ((200, UserWrapped (safeUser tempUser)), d)
                | Some [] \<Rightarrow> ((200, UserWrapped (safeUser tempUser)), d)
                | Some (c # cs) \<Rightarrow>
                    let finalUsername =
                          (if username tempUser \<noteq> Some (c # cs)
                           then (case findOne_username (c # cs) d of
                                   None \<Rightarrow> Some (c # cs)
                                 | Some existingUser \<Rightarrow> username tempUser)
                           else username tempUser);
                        updatedData =
                          \<lparr>ud_username = finalUsername, ud_bio = b3_bio req,
                           ud_location = b3_location req, ud_full_name = b3_full_name req,
                           ud_profile = None, ud_cover = None\<rparr>
                    in (case p3_handleImageUploads cl req updatedData tempUser of
                          Inl e \<Rightarrow> (p3_serverError e, d)
                        | Inr data \<Rightarrow>
                            (case core_updateUser (uid tempUser) data d of
                               (Inl e, d') \<Rightarrow> (p3_serverError e, d')
                             | (Inr None, d') \<Rightarrow>
                                 (p3_serverError (Error ''Cannot read properties of null''), d')
                             | (Inr (Some updatedUser), d') \<Rightarrow>
                                 ((200, UpdateOk (safeUser updatedUser)), d'))))))"

section \<open>Whitespace\<close>

text \<open>
  The characters of a string are the code units 0 to 255. \<^verbatim>\<open>String.prototype.trim\<close>
  removes white space and line terminators from both ends; among these characters they
  are tab, line feed, vertical tab, form feed, carriage return, space and the
  no-break space U+00A0.
\<close>

definition isWhiteSpace :: "char \<Rightarrow> bool" where
  "isWhiteSpace c =
     (c \<in> set [CHR 0x09, CHR 0x0A, CHR 0x0B, CHR 0x0C, CHR 0x0D, CHR '' '', CHR 0xA0])"

definition trim :: "string \<Rightarrow> string" where
  "trim s = rev (dropWhile isWhiteSpace (rev (dropWhile isWhiteSpace s)))"

section \<open>The route-mounted user service and controller (modules/user)\<close>

text \<open>
  \<^verbatim>\<open>UserService.getAllUsers\<close>, \<^verbatim>\<open>getUserById\<close> and \<^verbatim>\<open>getUserByUsername\<close>. A lookup by
  identifier casts the identifier first.
\<close>

definition svc_getAllUsers :: "db \<Rightarrow> user list" where
  "svc_getAllUsers d = d"

definition svc_getUserById :: "string \<Rightarrow> db \<Rightarrow> error + user option" where
  "svc_getUserById i d = (if \<not> isValid i then Inl CastError else Inr (findById i d))"

definition svc_getUserByUsername :: "string \<Rightarrow> db \<Rightarrow> user option" where
  "svc_getUserByUsername n d = findOne_username n d"

text \<open>
  The body of \<^verbatim>\<open>PUT /users/:id\<close>: any path of the schema, and the four keys through
  which new image data can arrive. Keys that are no paths of the schema never reach
  the stored document and are not modelled.
\<close>

record update_body =
  u_email :: "string option"
  u_password :: "string option"
  u_full_name :: "string option"
  u_username :: "string option"
  u_bio :: "string option"
  u_location :: "string option"
  u_followers :: "string list option"
  u_following :: "string list option"
  u_connections :: "string list option"
  u_profile :: "string option"
  u_cover :: "string option"
  u_profile_image :: "string option"
  u_cover_image :: "string option"

text \<open>
  \<^verbatim>\<open>User.findByIdAndUpdate(id, updates, { new: true })\<close> on one document: each key of the
  update that is present replaces that path; \<^verbatim>\<open>profile\<close> and \<^verbatim>\<open>cover\<close> are no paths.
\<close>

definition or_else :: "'a option \<Rightarrow> 'a \<Rightarrow> 'a" where
  "or_else x y = (case x of None \<Rightarrow> y | Some v \<Rightarrow> v)"

definition apply_updates :: "update_body \<Rightarrow> user \<Rightarrow> user" where
  "apply_updates upd u =
     u\<lparr>email := or_else (u_email upd) (email u),
       password := or_else (u_password upd) (password u),
       full_name := or_else (u_full_name upd) (full_name u),
       username := (case u_username upd of None \<Rightarrow> username u | Some n \<Rightarrow> Some n),
       bio := or_else (u_bio upd) (bio u),
       location := or_else (u_location upd) (location u),
       followers := or_else (u_followers upd) (followers u),
       following := or_else (u_following upd) (following u),
       connections := or_else (u_connections upd) (connections u),
       profile_image := or_else (u_profile_image upd) (profile_image u),
       cover_image := or_else (u_cover_image upd) (cover_image u)\<rparr>"

text \<open>
  \<^verbatim>\<open>UserService.updateUser\<close>; it returns the updated document, or \<^verbatim>\<open>null\<close>. The unique
  indexes on email and username belong to the store and are not modelled: a write
  they would reject, leaving the document as it was, is carried out here.
\<close>

definition svc_updateUser :: "string \<Rightarrow> update_body \<Rightarrow> db \<Rightarrow> (error + user option) \<times> db" where
  "svc_updateUser i upd d =
     (if \<not> isValid i then (Inl CastError, d)
      else (Inr (map_option (apply_updates upd) (findById i d)),
            updateById i (apply_updates upd) d))"

text \<open>
  \<^verbatim>\<open>CloudinaryService.validateFile\<close> and \<^verbatim>\<open>uploadImage\<close> of the service file. The stream
  upload is one call to the host; a rejection is thrown as it is.
\<close>

definition svc_maxSize :: nat where
  "svc_maxSize = 10 * 1024 * 1024"

definition validateFile :: "multer_file \<Rightarrow> error + unit" where
  "validateFile file =
     (if mimetype file \<notin> set allowedTypes
      then Inl (Error ''Invalid file type. Allowed: image/jpeg, image/jpg, image/png, image/webp'')
      else if (case file_size file of None \<Rightarrow> False | Some n \<Rightarrow> n > svc_maxSize)
      then Inl (Error ''File too large. Max allowed size is 10 MB'')
      else Inr ())"

definition svc_uploadImage ::
  "cloudinary \<Rightarrow> multer_file \<Rightarrow> string \<Rightarrow> (error + string) \<times> host_call list" where
  "svc_uploadImage cl file folder =
     (case validateFile file of
        Inl e \<Rightarrow> (Inl e, [])
      | Inr _ \<Rightarrow>
          let data = or_else (buffer file) []
          in (case upload cl data folder of
                Rejected m \<Rightarrow> (Inl (Error m), [Upload folder data])
              | Resolved url \<Rightarrow>
                  if url = []
                  then (Inl (Error ''Upload succeeded but no secure URL returned.''),
                        [Upload folder data])
                  else (Inr url, [Upload folder data])))"

text \<open>
  \<^verbatim>\<open>const incoming = profile ?? profile_image\<close> and the test that guards the slot:
  the first of the two keys that is present, if it is a string with something other than
  whitespace in it.
\<close>

definition slot_input :: "string option \<Rightarrow> string option \<Rightarrow> string option" where
  "slot_input a b =
     (case (case a of Some x \<Rightarrow> Some x | None \<Rightarrow> b) of
        None \<Rightarrow> None
      | Some incoming \<Rightarrow> if trim incoming \<noteq> [] then Some incoming else None)"

text \<open>
  The file the controller builds from the incoming string (\<^verbatim>\<open>Buffer.from(incoming,
  'base64')\<close>; the buffer is named by the string it was decoded from).
\<close>

definition built_file :: "string \<Rightarrow> multer_file" where
  "built_file incoming =
     \<lparr>mimetype = ''image/jpeg'', file_size = None, buffer = Some incoming, path = None\<rparr>"

text \<open>\<^verbatim>\<open>const { profile, cover, profile_image, cover_image, ...rest } = req.body\<close>.\<close>

definition rest_of :: "update_body \<Rightarrow> update_body" where
  "rest_of body =
     body\<lparr>u_profile := None, u_cover := None, u_profile_image := None, u_cover_image := None\<rparr>"

text \<open>
  The handler of \<^verbatim>\<open>UserController.updateUser\<close> (the function it passes to
  \<^verbatim>\<open>handleRequest\<close>): what it returns or throws, the collection it leaves, and the calls
  it made to the image host. \<^verbatim>\<open>try { await deleteImage(...) } catch { }\<close> keeps the calls
  and drops the outcome.
\<close>

definition ctl_updateUser ::
  "cloudinary \<Rightarrow> string \<Rightarrow> update_body \<Rightarrow> db \<Rightarrow> (error + user) \<times> db \<times> host_call list" where
  "ctl_updateUser cl i body d =
     (case svc_getUserById i d of
        Inl e \<Rightarrow> (Inl e, d, [])
      | Inr None \<Rightarrow> (Inl (Thrown ''User not found''), d, [])
      | Inr (Some existingUser) \<Rightarrow>
          (case (case slot_input (u_profile body) (u_profile_image body) of
                   None \<Rightarrow> (Inr (rest_of body), [])
                 | Some incomingProfile \<Rightarrow>
                     let deleted = (case profile_image existingUser of
                                      [] \<Rightarrow> []
                                    | c # old \<Rightarrow> snd (deleteImage cl (c # old)))
                     in (case svc_uploadImage cl (built_file incomingProfile) ''profiles'' of
                           (Inl e, calls) \<Rightarrow> (Inl e, deleted @ calls)
                         | (Inr profileUrl, calls) \<Rightarrow>
                             (Inr ((rest_of body)\<lparr>u_profile_image := Some profileUrl\<rparr>),
                              deleted @ calls))) of
             (Inl e, calls1) \<Rightarrow> (Inl e, d, calls1)
           | (Inr updates1, calls1) \<Rightarrow>
               (case (case slot_input (u_cover body) (u_cover_image body) of
                        None \<Rightarrow> (Inr updates1, [])
                      | Some incomingCover \<Rightarrow>
                          let deleted = (case cover_image existingUser of
                                           [] \<Rightarrow> []
                                         | c # old \<Rightarrow> snd (deleteImage cl (c # old)))
                          in (case svc_uploadImage cl (built_file incomingCover) ''covers'' of
                                (Inl e, calls) \<Rightarrow> (Inl e, deleted @ calls)
                              | (Inr coverUrl, calls) \<Rightarrow>
                                  (Inr (updates1\<lparr>u_cover_image := Some coverUrl\<rparr>),
                                   deleted @ calls))) of
                  (Inl e, calls2) \<Rightarrow> (Inl e, d, calls1 @ calls2)
                | (Inr updates, calls2) \<Rightarrow>
                    (case svc_updateUser i updates d of
                       (Inl e, d') \<Rightarrow> (Inl e, d', calls1 @ calls2)
                     | (Inr None, d') \<Rightarrow> (Inl (Thrown ''User not found''), d', calls1 @ calls2)
                     | (Inr (Some updatedUser), d') \<Rightarrow>
                         (Inr updatedUser, d', calls1 @ calls2)))))"

section \<open>Response payloads of the route-mounted controllers\<close>

text \<open>What a handler returns for the payload, as the JSON it serialises to.\<close>

datatype data =
    UserData user_object
  | UsersData "user_object list"
  | LoginData string user_object
  | MessageData string

datatype api_response = Success string data | Failure string

text \<open>
  Modelled from the spec: \<^verbatim>\<open>BaseController.handleRequest\<close> of
  \<^verbatim>\<open>core/controller/base.controller\<close>, which the controllers of \<^verbatim>\<open>modules/\<close> extend and which
  is not among the source files. It is the boundary of section 7 of the specification:
  what the handler throws is caught and reported generically under the handler's
  failure message; what the handler returns is sent as the payload under its success
  message.
\<close>

definition handleRequest :: "(error + data) \<Rightarrow> string \<Rightarrow> string \<Rightarrow> api_response" where
  "handleRequest result successMessage errorMessage =
     (case result of Inr x \<Rightarrow> Success successMessage x | Inl e \<Rightarrow> Failure errorMessage)"

text \<open>
  \<^verbatim>\<open>UserController.getAllUsers\<close>, \<^verbatim>\<open>getUserById\<close> and \<^verbatim>\<open>getUserByUsername\<close> of
  modules/user: the documents go into the payload as they were found.
\<close>

definition ctl_getAllUsers :: "db \<Rightarrow> api_response" where
  "ctl_getAllUsers d =
     handleRequest (Inr (UsersData (map toObject (svc_getAllUsers d))))
       ''Fetched all users successfully'' ''Failed to fetch users''"

definition ctl_getUserById :: "string \<Rightarrow> db \<Rightarrow> api_response" where
  "ctl_getUserById i d =
     handleRequest
       (case svc_getUserById i d of
          Inl e \<Rightarrow> Inl e
        | Inr None \<Rightarrow> Inl (Thrown ''User not found'')
        | Inr (Some usr) \<Rightarrow> Inr (UserData (toObject usr)))
       ''Fetched user successfully'' ''Failed to fetch user''"

definition ctl_getUserByUsername :: "string \<Rightarrow> db \<Rightarrow> api_response" where
  "ctl_getUserByUsername n d =
     handleRequest
       (case svc_getUserByUsername n d of
          None \<Rightarrow> Inl (Thrown ''User not found'')
        | Some usr \<Rightarrow> Inr (UserData (toObject usr)))
       ''Fetched user successfully'' ''Failed to fetch user''"

text \<open>
  \<^verbatim>\<open>AuthController.login\<close>. \<^verbatim>\<open>bcrypt.compare\<close> and \<^verbatim>\<open>jwt.sign\<close> are library functions
  and parameters here (\<open>compare\<close> takes the password and the stored hash, \<open>sign\<close> the
  identifier and the email of the token's payload).
\<close>

definition login ::
  "(string \<Rightarrow> string \<Rightarrow> bool) \<Rightarrow> (string \<Rightarrow> string \<Rightarrow> string) \<Rightarrow> string \<Rightarrow> string \<Rightarrow> db
     \<Rightarrow> api_response" where
  "login compare sign mail pw d =
     handleRequest
       (case find (\<lambda>u. email u = mail) d of
          None \<Rightarrow> Inl (Thrown ''User not found'')
        | Some usr \<Rightarrow>
            if \<not> compare pw (password usr) then Inl (Thrown ''Invalid Credentials'')
            else Inr (LoginData (sign (uid usr) (email usr)) (toObject usr)))
       ''Login Successful'' ''Failed to log in''"

text \<open>The user objects of a payload, and the claim about them: none carries a password.\<close>

fun data_users :: "data \<Rightarrow> user_object list" where
  "data_users (UserData obj) = [obj]"
| "data_users (UsersData objs) = objs"
| "data_users (LoginData token obj) = [obj]"
| "data_users (MessageData m) = []"

definition password_absent :: "data \<Rightarrow> bool" where
  "password_absent x = list_all (\<lambda>obj. o_password obj = None) (data_users x)"

text \<open>\<^verbatim>\<open>UserController.getUserId\<close> of the guarded controller, which does strip the password.\<close>

definition getUserId :: "string option \<Rightarrow> db \<Rightarrow> response" where
  "getUserId req_user d =
     (case validateAuthentication req_user of
        None \<Rightarrow> (401, Message ''Unauthorized'')
      | Some userId \<Rightarrow>
          (case findUserById userId d of
             Inl e \<Rightarrow> handleError e ''Error in getUserId''
           | Inr None \<Rightarrow> (404, Message ''User not found'')
           | Inr (Some usr) \<Rightarrow> (200, UserBody (safeUser usr))))"

section \<open>Search (UserService.searchUsers and UserController.searchUsers)\<close>











section \<open>Unspecified fields\<close>

text \<open>
  What it means that an update left the fields its input did not specify as they were,
  for the request of the guarded update and for the body of the route-mounted one. A
  stored user \<open>u\<close> has become \<open>u'\<close>; a field may differ only if the input has a
  key for it (for an image field: one of the keys that carry new image data).
\<close>

definition core_unspecified_kept :: "update_request \<Rightarrow> user \<Rightarrow> user \<Rightarrow> bool" where
  "core_unspecified_kept req u u' =
     (uid u' = uid u \<and> email u' = email u \<and> password u' = password u
      \<and> followers u' = followers u \<and> following u' = following u
      \<and> connections u' = connections u
      \<and> (b_username req = None \<longrightarrow> username u' = username u)
      \<and> (b_bio req = None \<longrightarrow> bio u' = bio u)
      \<and> (b_location req = None \<longrightarrow> location u' = location u)
      \<and> (b_full_name req = None \<longrightarrow> full_name u' = full_name u)
      \<and> (f_profile req = None \<longrightarrow> profile_image u' = profile_image u)
      \<and> (f_cover req = None \<longrightarrow> cover_image u' = cover_image u))"

definition svc_unspecified_kept :: "update_body \<Rightarrow> user \<Rightarrow> user \<Rightarrow> bool" where
  "svc_unspecified_kept body u u' =
     (uid u' = uid u
      \<and> (u_email body = None \<longrightarrow> email u' = email u)
      \<and> (u_password body = None \<longrightarrow> password u' = password u)
      \<and> (u_full_name body = None \<longrightarrow> full_name u' = full_name u)
      \<and> (u_username body = None \<longrightarrow> username u' = username u)
      \<and> (u_bio body = None \<longrightarrow> bio u' = bio u)
      \<and> (u_location body = None \<longrightarrow> location u' = location u)
      \<and> (u_followers body = None \<longrightarrow> followers u' = followers u)
      \<and> (u_following body = None \<longrightarrow> following u' = following u)
      \<and> (u_connections body = None \<longrightarrow> connections u' = connections u)
      \<and> (u_profile body = None \<and> u_profile_image body = None
           \<longrightarrow> profile_image u' = profile_image u)
      \<and> (u_cover body = None \<and> u_cover_image body = None
           \<longrightarrow> cover_image u' = cover_image u))"

section \<open>The stages of the route-mounted update\<close>

text \<open>
  Names for the parts of \<open>ctl_updateUser\<close> that the proofs below speak about: that an
  update has the keys of the body outside the image keys; the calls a slot makes for
  the image the user already has; a slot as a whole (its two slots are the same code
  twice); and the update the two slots leave behind.
\<close>

definition same_rest :: "update_body \<Rightarrow> update_body \<Rightarrow> bool" where
  "same_rest upd body =
     (u_email upd = u_email body \<and> u_password upd = u_password body
      \<and> u_full_name upd = u_full_name body \<and> u_username upd = u_username body
      \<and> u_bio upd = u_bio body \<and> u_location upd = u_location body
      \<and> u_followers upd = u_followers body \<and> u_following upd = u_following body
      \<and> u_connections upd = u_connections body)"




section \<open>Self-relations\<close>

text \<open>
  A document with no self-relation: none of its three lists has an entry that is its
  own identifier (as an ObjectId: whatever the case of the entry's digits). The
  collection is irreflexive when every document is.
\<close>

definition no_self_relation :: "user \<Rightarrow> bool" where
  "no_self_relation u =
     (oid (uid u) \<notin> set (map oid (followers u))
      \<and> oid (uid u) \<notin> set (map oid (following u))
      \<and> oid (uid u) \<notin> set (map oid (connections u)))"

definition irreflexive :: "db \<Rightarrow> bool" where
  "irreflexive d = list_all no_self_relation d"

section \<open>Two sample users\<close>

definition alice_id :: string where "alice_id = ''aaaaaaaaaaaaaaaaaaaaaaaa''"
definition bob_id :: string where "bob_id = ''bbbbbbbbbbbbbbbbbbbbbbbb''"

text \<open>Alice's identifier in upper-case hexadecimal digits: another string, the same ObjectId.\<close>

definition alice_upper_id :: string where "alice_upper_id = ''AAAAAAAAAAAAAAAAAAAAAAAA''"

definition alice :: user where
  "alice = \<lparr>uid = alice_id, email = ''alice@example.com'', password = ''$2b$10$alicehash'',
            full_name = ''Alice Liddell'', username = Some ''alice'', bio = ''Hey there!'',
            profile_image = '''', cover_image = '''', location = ''Oxford'',
            followers = [], following = [], connections = []\<rparr>"

definition bob :: user where
  "bob = \<lparr>uid = bob_id, email = ''bob@example.com'', password = ''$2b$10$bobhash'',
          full_name = ''Bob Stone'', username = Some ''bob'', bio = ''Hey there!'',
          profile_image = '''', cover_image = '''', location = ''Leeds'',
          followers = [], following = [], connections = []\<rparr>"

text \<open>Hosts, files and requests for the examples below.\<close>

definition no_host :: cloudinary where
  "no_host = \<lparr>max_size = 10485760, destroy = (\<lambda>pid. False),
              upload = (\<lambda>data folder. Rejected ''host down'')\<rparr>"

definition good_host :: cloudinary where
  "good_host = \<lparr>max_size = 10485760, destroy = (\<lambda>pid. True),
                upload = (\<lambda>data folder.
                  Resolved ''https://res.cloudinary.com/demo/image/upload/v2/user-uploads/new.webp'')\<rparr>"

definition profile_only_host :: cloudinary where
  "profile_only_host =
     \<lparr>max_size = 10485760, destroy = (\<lambda>pid. False),
      upload = (\<lambda>data folder.
        if folder = ''profiles''
        then Resolved ''https://res.cloudinary.com/demo/image/upload/v1800/user-uploads/new.webp''
        else Rejected ''cover rejected'')\<rparr>"

definition png_file :: multer_file where
  "png_file = \<lparr>mimetype = ''image/png'', file_size = Some 2048, buffer = Some ''PNG-DATA'',
               path = None\<rparr>"

definition bio_only :: update_body where
  "bio_only = \<lparr>u_email = None, u_password = None, u_full_name = None, u_username = None,
               u_bio = Some ''Gone fishing'', u_location = None, u_followers = None,
               u_following = None, u_connections = None, u_profile = None, u_cover = None,
               u_profile_image = None, u_cover_image = None\<rparr>"

definition bio_request :: update_request where
  "bio_request = \<lparr>r_user = Some alice_id, b_username = Some ''alice'',
                  b_bio = Some ''Gone fishing'', b_location = None, b_full_name = None,
                  f_profile = None, f_cover = None\<rparr>"

definition rename_request :: update_request where
  "rename_request = \<lparr>r_user = Some alice_id, b_username = Some ''bob'', b_bio = None,
                     b_location = None, b_full_name = None, f_profile = Some png_file,
                     f_cover = None\<rparr>"



section \<open>Lookups and updates of the collection\<close>

lemma hexLower_idem: "hexLower (hexLower c) = hexLower c"
  by (simp add: hexLower_def)

lemma oid_idem: "oid (oid s) = oid s"
  by (simp add: oid_def hexLower_idem)

lemma isHexDigit_hexLower: "isHexDigit (hexLower c) = isHexDigit c"
  by (auto simp add: hexLower_def isHexDigit_def)

lemma isValid_oid: "isValid (oid s) = isValid s"
  by (simp add: isValid_def oid_def list_all_iff isHexDigit_hexLower)

lemma findById_uid: "findById i d = Some u \<Longrightarrow> oid (uid u) = oid i"
  unfolding findById_def by (induction d) (auto split: if_splits)

lemma findById_oid: "oid i = oid j \<Longrightarrow> findById i d = findById j d"
  by (simp add: findById_def)

lemma updateById_oid: "oid i = oid j \<Longrightarrow> updateById i f d = updateById j f d"
  by (induction d) auto

lemma findById_updateById:
  "(\<And>u. uid (f u) = uid u) \<Longrightarrow>
   findById j (updateById k f d)
     = (if oid k = oid j then map_option f (findById j d) else findById j d)"
  unfolding findById_def by (induction d) auto

lemma updateById_fixed: "findById i d = Some u \<Longrightarrow> f u = u \<Longrightarrow> updateById i f d = d"
  unfolding findById_def by (induction d) (auto split: if_splits)

lemma updateById_twice:
  "(\<And>u. uid (g u) = uid u) \<Longrightarrow> updateById i f (updateById i g d) = updateById i (\<lambda>u. f (g u)) d"
  by (induction d) auto

lemma updateById_commute:
  "oid i \<noteq> oid j \<Longrightarrow> (\<And>u. uid (f u) = uid u) \<Longrightarrow> (\<And>u. uid (g u) = uid u) \<Longrightarrow>
   updateById i f (updateById j g d) = updateById j g (updateById i f d)"
  by (induction d) auto

lemma findUserById_Some:
  "findUserById i d = Inr (Some u) \<Longrightarrow> isValid i \<and> findById i d = Some u \<and> oid (uid u) = oid i"
  unfolding findUserById_def by (auto split: if_splits dest: findById_uid)

lemma findUserById_found: "isValid i \<Longrightarrow> findById i d = Some u \<Longrightarrow> findUserById i d = Inr (Some u)"
  by (simp add: findUserById_def)

lemma validates_lists:
  "validates (u\<lparr>following := x\<rparr>) = validates u" "validates (u\<lparr>followers := y\<rparr>) = validates u"
  by (simp_all add: validates_def)

lemma valid_ids: "isValid alice_id" "isValid bob_id" "isValid alice_upper_id"
  by (simp_all add: isValid_def isHexDigit_def alice_id_def bob_id_def alice_upper_id_def)

lemma ids_differ: "alice_id \<noteq> bob_id" "bob_id \<noteq> alice_id" "alice_upper_id \<noteq> alice_id"
  "alice_id \<noteq> alice_upper_id"
  by (simp_all add: alice_id_def bob_id_def alice_upper_id_def)

lemma oid_ids: "oid alice_id = alice_id" "oid bob_id = bob_id" "oid alice_upper_id = alice_id"
  by (simp_all add: oid_def hexLower_def alice_id_def bob_id_def alice_upper_id_def)

lemma alice_fields: "uid alice = alice_id" "username alice = Some ''alice''"
  "profile_image alice = []" "cover_image alice = []"
  by (simp_all add: alice_def)

lemma bob_fields: "uid bob = bob_id" "username bob = Some ''bob''"
  by (simp_all add: bob_def)

lemma findById_alice: "findById alice_id [alice, bob] = Some alice"
  by (simp add: findById_def alice_fields)

lemma findById_bob: "findById bob_id [alice, bob] = Some bob"
  by (simp add: findById_def alice_fields bob_fields oid_ids ids_differ)

lemma find_alice: "findUserById alice_id [alice, bob] = Inr (Some alice)"
  by (simp add: findUserById_def findById_alice valid_ids)

lemma find_bob: "findUserById bob_id [alice, bob] = Inr (Some bob)"
  by (simp add: findUserById_def findById_bob valid_ids)

lemma ids_nonempty: "alice_id \<noteq> []" "bob_id \<noteq> []"
  by (simp_all add: alice_id_def bob_id_def)

lemma valid_auth: "validateAuthentication (Some alice_id) = Some alice_id"
  by (simp add: validateAuthentication_def ids_nonempty)

lemma validates_samples: "validates alice" "validates bob"
  by (simp_all add: validates_def alice_def bob_def)

lemma sample_lists: "following alice = []" "followers alice = []" "connections alice = []"
  "following bob = []" "followers bob = []" "connections bob = []"
  by (simp_all add: alice_def bob_def)

section \<open>Following twice\<close>

text \<open>
  Claim C1, as the code has it. Let A and B be existing users, B not in A's following
  list, and A at most once in B's followers list; let A's stored document pass the
  schema's validation, and B's too unless B's followers list already holds A. Then
  \<^verbatim>\<open>addFollowing(A, B)\<close> succeeds, a second \<^verbatim>\<open>addFollowing(A, B)\<close> on the collection it
  left fails with \<^verbatim>\<open>Already following this user\<close> and changes nothing, and B's followers
  list then holds A exactly once.
\<close>

theorem addFollowing_twice:
  assumes A: "findUserById A d = Inr (Some ua)"
      and B: "findUserById B d = Inr (Some ub)"
      and nf: "B \<notin> set (following ua)"
      and once: "count_list (followers ub) A \<le> 1"
      and okA: "validates ua" and okB: "A \<in> set (followers ub) \<or> validates ub"
  shows "\<exists>d1 ub1. addFollowing A B d = (Inr (), d1)
           \<and> addFollowing A B d1 = (Inl (Error ''Already following this user''), d1)
           \<and> findUserById B d1 = Inr (Some ub1)
           \<and> count_list (followers ub1) A = 1"
proof -
  from A have vA: "isValid A" and fA: "findById A d = Some ua" and iA: "oid (uid ua) = oid A"
    using findUserById_Some by blast+
  from B have vB: "isValid B" and fB: "findById B d = Some ub" and iB: "oid (uid ub) = oid B"
    using findUserById_Some by blast+
  define dA where "dA = updateById (uid ua) (\<lambda>u. u\<lparr>following := following ua @ [B]\<rparr>) d"
  define fs where "fs = (if A \<in> set (followers ub) then followers ub else followers ub @ [A])"
  define d1 where "d1 = (if A \<in> set (followers ub) then dA
                         else updateById (uid ub) (\<lambda>u. u\<lparr>followers := followers ub @ [A]\<rparr>) dA)"
  have first: "addFollowing A B d = (Inr (), d1)"
    using A B nf okA okB
    by (auto simp add: addFollowing_def save_following_def save_followers_def dA_def d1_def
        validates_lists)
  have same: "ub = ua" if "oid A = oid B"
    using fA fB findById_oid[OF that, of d] by simp
  have A1: "\<exists>usr. findById A d1 = Some usr \<and> B \<in> set (following usr)"
    using fA iA iB by (cases "oid A = oid B")
      (simp_all add: dA_def d1_def findById_updateById)
  have B1: "\<exists>t. findById B d1 = Some t \<and> followers t = fs"
  proof (cases "oid A = oid B")
    case True
    then show ?thesis using fA fB iA iB same[OF True]
      by (simp add: dA_def d1_def fs_def findById_updateById)
  next
    case False
    then show ?thesis using fA fB iA iB
      by (simp add: dA_def d1_def fs_def findById_updateById)
  qed
  then obtain t where t: "findById B d1 = Some t" "followers t = fs" by blast
  have second: "addFollowing A B d1 = (Inl (Error ''Already following this user''), d1)"
    using vA vB A1 t by (auto simp add: addFollowing_def findUserById_def)
  have "count_list fs A = 1"
  proof (cases "A \<in> set (followers ub)")
    case True
    then have "count_list (followers ub) A \<noteq> 0" by (simp add: count_list_0_iff)
    with once True show ?thesis by (simp add: fs_def)
  next
    case False
    then show ?thesis by (simp add: fs_def count_list_0_iff)
  qed
  with first second t vB show ?thesis
    by (auto simp add: findUserById_def)
qed

theorem addFollowing_twice_witness:
  "findUserById alice_id [alice, bob] = Inr (Some alice)
   \<and> findUserById bob_id [alice, bob] = Inr (Some bob)
   \<and> bob_id \<notin> set (following alice)
   \<and> count_list (followers bob) alice_id \<le> 1
   \<and> validates alice
   \<and> validates bob
   \<and> (\<exists>d1 ub1. addFollowing alice_id bob_id [alice, bob] = (Inr (), d1)
         \<and> addFollowing alice_id bob_id d1 = (Inl (Error ''Already following this user''), d1)
         \<and> findUserById bob_id d1 = Inr (Some ub1)
         \<and> count_list (followers ub1) alice_id = 1)"
proof -
  have h3: "bob_id \<notin> set (following alice)" by (simp add: sample_lists)
  have h4: "count_list (followers bob) alice_id \<le> 1" by (simp add: sample_lists)
  have h6: "alice_id \<in> set (followers bob) \<or> validates bob" by (simp add: validates_samples)
  show ?thesis
    using addFollowing_twice [OF find_alice find_bob h3 h4 validates_samples(1) h6]
      find_alice find_bob h3 h4 validates_samples
    by simp
qed

text \<open>
  Neither proviso can be dropped. The followers list is only ever extended, never
  de-duplicated: if Bob's list already holds Alice twice (a list \<^verbatim>\<open>PUT /users/:id\<close> can
  store) and Alice does not follow Bob, both calls behave as described and the list
  still holds her twice. And \<^verbatim>\<open>save()\<close> validates: if Alice's stored document has an
  empty \<^verbatim>\<open>full_name\<close>, her first call already throws a validation error and writes
  nothing.
\<close>

theorem addFollowing_twice_fails:
  "findUserById alice_id [alice, bob\<lparr>followers := [alice_id, alice_id]\<rparr>] = Inr (Some alice)
   \<and> findUserById bob_id [alice, bob\<lparr>followers := [alice_id, alice_id]\<rparr>]
       = Inr (Some (bob\<lparr>followers := [alice_id, alice_id]\<rparr>))
   \<and> bob_id \<notin> set (following alice)
   \<and> addFollowing alice_id bob_id [alice, bob\<lparr>followers := [alice_id, alice_id]\<rparr>]
       = (Inr (), [alice\<lparr>following := [bob_id]\<rparr>, bob\<lparr>followers := [alice_id, alice_id]\<rparr>])
   \<and> addFollowing alice_id bob_id
         [alice\<lparr>following := [bob_id]\<rparr>, bob\<lparr>followers := [alice_id, alice_id]\<rparr>]
       = (Inl (Error ''Already following this user''),
          [alice\<lparr>following := [bob_id]\<rparr>, bob\<lparr>followers := [alice_id, alice_id]\<rparr>])
   \<and> count_list (followers (bob\<lparr>followers := [alice_id, alice_id]\<rparr>)) alice_id = 2
   \<and> findUserById alice_id [alice\<lparr>full_name := []\<rparr>, bob]
       = Inr (Some (alice\<lparr>full_name := []\<rparr>))
   \<and> findUserById bob_id [alice\<lparr>full_name := []\<rparr>, bob] = Inr (Some bob)
   \<and> bob_id \<notin> set (following (alice\<lparr>full_name := []\<rparr>))
   \<and> addFollowing alice_id bob_id [alice\<lparr>full_name := []\<rparr>, bob]
       = (Inl ValidationError, [alice\<lparr>full_name := []\<rparr>, bob])"
  by (simp add: addFollowing_def findUserById_def findById_def valid_ids ids_differ oid_ids
      save_following_def save_followers_def validates_def validates_samples[unfolded validates_def]
      alice_fields bob_fields sample_lists)

text \<open>
  The route-mounted \<^verbatim>\<open>UserService.followUser\<close> is not \<^verbatim>\<open>addFollowing\<close>: its \<^verbatim>\<open>$addToSet\<close>
  keeps a second call from adding anything, and the second call returns normally.
\<close>

lemma svc_followUser_twice:
  "svc_followUser alice_id bob_id [alice, bob]
     = (Inr (), [alice\<lparr>following := [bob_id]\<rparr>, bob\<lparr>followers := [alice_id]\<rparr>])
   \<and> svc_followUser alice_id bob_id
         [alice\<lparr>following := [bob_id]\<rparr>, bob\<lparr>followers := [alice_id]\<rparr>]
     = (Inr (), [alice\<lparr>following := [bob_id]\<rparr>, bob\<lparr>followers := [alice_id]\<rparr>])"
  by (simp add: svc_followUser_def findByIdAndUpdate_def
      addToSet_def valid_ids ids_differ oid_ids alice_fields bob_fields sample_lists)

section \<open>Unfollowing a user one does not follow\<close>

text \<open>
  The guarded \<^verbatim>\<open>UserService.removeFollowing\<close> does what is asked: if A exists and B is not
  in A's following list it throws \<^verbatim>\<open>You are not following this user\<close> and the collection
  is what it was.
\<close>

lemma removeFollowing_not_following:
  assumes "findUserById A d = Inr (Some ua)" and "B \<notin> set (following ua)"
  shows "removeFollowing A B d = (Inl (Error ''You are not following this user''), d)"
  using assms by (simp add: removeFollowing_def)

text \<open>
  The route-mounted \<^verbatim>\<open>UserService.unfollowUser\<close> has no error of that kind at all: it
  returns normally or throws the cast error of an identifier that is no ObjectId.
\<close>

lemma svc_unfollowUser_never_refuses:
  "fst (svc_unfollowUser A B d) = Inr () \<or> fst (svc_unfollowUser A B d) = Inl CastError"
  by (simp add: svc_unfollowUser_def findByIdAndUpdate_def)

text \<open>
  Claim C2 fails on the route-mounted service. Alice does not follow Bob, and
  \<^verbatim>\<open>UserService.unfollowUser(alice, bob)\<close> returns normally; the collection is unchanged,
  but no error is raised.
\<close>

theorem svc_unfollowUser_not_following:
  "findUserById alice_id [alice, bob] = Inr (Some alice)
   \<and> bob_id \<notin> set (following alice)
   \<and> svc_unfollowUser alice_id bob_id [alice, bob] = (Inr (), [alice, bob])"
  by (simp add: find_alice svc_unfollowUser_def findByIdAndUpdate_def pull_def valid_ids
      ids_differ oid_ids alice_fields bob_fields sample_lists
      updateById_fixed[OF findById_alice] updateById_fixed[OF findById_bob])

section \<open>Follow, then unfollow\<close>

lemma roundtrip_valid:
  assumes A: "findUserById A d = Inr (Some ua)"
      and B: "findUserById B d = Inr (Some ub)"
      and nf: "B \<notin> set (following ua)"
      and nb: "A \<notin> set (followers ub)"
      and okA: "validates ua" and okB: "validates ub"
  shows "\<exists>d1. addFollowing A B d = (Inr (), d1) \<and> removeFollowing A B d1 = (Inr (), d)"
proof -
  from A have vA: "isValid A" and fA: "findById A d = Some ua" and iA: "oid (uid ua) = oid A"
    using findUserById_Some by blast+
  from B have vB: "isValid B" and fB: "findById B d = Some ub" and iB: "oid (uid ub) = oid B"
    using findUserById_Some by blast+
  define d1 where "d1 = updateById (uid ua) (\<lambda>u. u\<lparr>following := following ua @ [B]\<rparr>) d"
  define d2 where "d2 = updateById (uid ub) (\<lambda>u. u\<lparr>followers := followers ub @ [A]\<rparr>) d1"
  have add: "addFollowing A B d = (Inr (), d2)"
    using A B nf nb okA okB
    by (simp add: addFollowing_def save_following_def save_followers_def d1_def d2_def
        validates_lists)
  have same: "ub = ua" if "oid A = oid B"
    using fA fB findById_oid[OF that, of d] by simp
  have A2: "\<exists>usr. findById A d2 = Some usr \<and> following usr = following ua @ [B]
              \<and> uid usr = uid ua \<and> validates usr"
    using fA iA iB okA by (cases "oid A = oid B")
      (simp_all add: d1_def d2_def findById_updateById validates_lists)
  then obtain usr where u1: "findById A d2 = Some usr" and u2: "following usr = following ua @ [B]"
    and u3: "uid usr = uid ua" and u4: "validates usr" by blast
  define d3 where "d3 = updateById (uid ua) (\<lambda>u. u\<lparr>following := following ua\<rparr>) d2"
  have B3: "\<exists>t. findById B d3 = Some t \<and> followers t = followers ub @ [A]
              \<and> uid t = uid ub \<and> validates t"
  proof (cases "oid A = oid B")
    case True
    then show ?thesis using fA fB iA iB okA same[OF True]
      by (simp add: d1_def d2_def d3_def findById_updateById validates_lists)
  next
    case False
    then show ?thesis using fA fB iA iB okB
      by (simp add: d1_def d2_def d3_def findById_updateById validates_lists)
  qed
  then obtain t where t1: "findById B d3 = Some t" and t2: "followers t = followers ub @ [A]"
    and t3: "uid t = uid ub" and t4: "validates t" by blast
  define d4 where "d4 = updateById (uid ub) (\<lambda>u. u\<lparr>followers := followers ub\<rparr>) d3"
  have fl: "filter (\<lambda>i. i \<noteq> B) (following ua) = following ua"
    "filter (\<lambda>i. i \<noteq> A) (followers ub) = followers ub"
    using nf nb by (auto simp add: filter_id_conv)
  have rem: "removeFollowing A B d2 = (Inr (), d4)"
    using vA vB u1 u2 u3 u4 t1 t2 t3 t4 fl
    by (simp add: removeFollowing_def findUserById_def save_following_def save_followers_def
        d3_def d4_def validates_lists)
  have fA': "findById (uid ua) d = Some ua" and fB': "findById (uid ub) d = Some ub"
    using fA fB findById_oid[OF iA, of d] findById_oid[OF iB, of d] by simp_all
  have restored: "d4 = d"
  proof (cases "oid A = oid B")
    case True
    then show ?thesis using fA' same[OF True]
      by (simp add: d1_def d2_def d3_def d4_def updateById_twice updateById_fixed)
  next
    case False
    then have ne: "oid (uid ua) \<noteq> oid (uid ub)" using iA iB by simp
    have "d4 = updateById (uid ub) (\<lambda>u. u\<lparr>followers := followers ub\<rparr>)
                (updateById (uid ub) (\<lambda>u. u\<lparr>followers := followers ub @ [A]\<rparr>)
                  (updateById (uid ua) (\<lambda>u. u\<lparr>following := following ua\<rparr>) d1))"
      using ne by (simp add: d4_def d3_def d2_def updateById_commute)
    also have "\<dots> = d" using fA' fB'
      by (simp add: d1_def updateById_twice updateById_fixed)
    finally show ?thesis .
  qed
  show ?thesis using add rem restored by simp
qed

lemma roundtrip_first_invalid:
  assumes A: "findUserById A d = Inr (Some ua)"
      and B: "findUserById B d = Inr (Some ub)"
      and nf: "B \<notin> set (following ua)"
      and bad: "\<not> validates ua"
  shows "addFollowing A B d = (Inl ValidationError, d)
       \<and> removeFollowing A B d = (Inl (Error ''You are not following this user''), d)"
  using A B nf bad
  by (simp add: addFollowing_def removeFollowing_def save_following_def validates_lists)

lemma roundtrip_second_invalid:
  assumes A: "findUserById A d = Inr (Some ua)"
      and B: "findUserById B d = Inr (Some ub)"
      and nf: "B \<notin> set (following ua)"
      and nb: "A \<notin> set (followers ub)"
      and okA: "validates ua" and bad: "\<not> validates ub"
  shows "\<exists>d1. addFollowing A B d = (Inl ValidationError, d1)
            \<and> removeFollowing A B d1 = (Inr (), d)"
proof -
  from A have vA: "isValid A" and fA: "findById A d = Some ua" and iA: "oid (uid ua) = oid A"
    using findUserById_Some by blast+
  from B have vB: "isValid B" and fB: "findById B d = Some ub" and iB: "oid (uid ub) = oid B"
    using findUserById_Some by blast+
  have ne: "oid A \<noteq> oid B"
    using fA fB okA bad findById_oid[of A B d] by auto
  define d1 where "d1 = updateById (uid ua) (\<lambda>u. u\<lparr>following := following ua @ [B]\<rparr>) d"
  have add: "addFollowing A B d = (Inl ValidationError, d1)"
    using A B nf nb okA bad
    by (simp add: addFollowing_def save_following_def save_followers_def d1_def validates_lists)
  have u1: "findById A d1 = Some (ua\<lparr>following := following ua @ [B]\<rparr>)"
    using fA iA by (simp add: d1_def findById_updateById)
  have fA': "findById (uid ua) d = Some ua"
    using fA findById_oid[OF iA, of d] by simp
  have d2: "updateById (uid ua) (\<lambda>u. u\<lparr>following := following ua\<rparr>) d1 = d"
    using fA' by (simp add: d1_def updateById_twice updateById_fixed)
  have fl: "filter (\<lambda>i. i \<noteq> B) (following ua) = following ua"
    using nf by (auto simp add: filter_id_conv)
  have rem: "removeFollowing A B d1 = (Inr (), d)"
    using vA vB u1 okA fl d2 fB nb
    by (simp add: removeFollowing_def findUserById_def save_following_def validates_lists)
  show ?thesis using add rem by simp
qed

text \<open>
  Claim C3. If A and B exist, B is not in A's following list and A is not in B's
  followers list, then \<^verbatim>\<open>addFollowing(A, B)\<close> followed by \<^verbatim>\<open>removeFollowing(A, B)\<close> leaves
  the collection the two calls started from: A's following list, B's followers list and
  everything else. This holds whether or not the calls throw on the way (a stored
  document that fails validation makes \<^verbatim>\<open>save()\<close> throw); when both stored documents
  pass validation, both calls succeed. A and B need not even be distinct.
\<close>

theorem follow_unfollow_roundtrip:
  assumes A: "findUserById A d = Inr (Some ua)"
      and B: "findUserById B d = Inr (Some ub)"
      and nf: "B \<notin> set (following ua)"
      and nb: "A \<notin> set (followers ub)"
  shows "snd (removeFollowing A B (snd (addFollowing A B d))) = d
       \<and> (validates ua \<and> validates ub \<longrightarrow>
            (\<exists>d1. addFollowing A B d = (Inr (), d1) \<and> removeFollowing A B d1 = (Inr (), d)))"
proof -
  have valid: "\<exists>d1. addFollowing A B d = (Inr (), d1) \<and> removeFollowing A B d1 = (Inr (), d)"
    if "validates ua" "validates ub"
    using roundtrip_valid[OF A B nf nb that] .
  have "snd (removeFollowing A B (snd (addFollowing A B d))) = d"
  proof (cases "validates ua")
    case False
    then show ?thesis using roundtrip_first_invalid[OF A B nf] by simp
  next
    case True
    show ?thesis
    proof (cases "validates ub")
      case False
      with True roundtrip_second_invalid[OF A B nf nb] show ?thesis by auto
    next
      case ok: True
      with True valid show ?thesis by auto
    qed
  qed
  with valid show ?thesis by blast
qed

theorem follow_unfollow_roundtrip_witness:
  "findUserById alice_id [alice, bob] = Inr (Some alice)
   \<and> findUserById bob_id [alice, bob] = Inr (Some bob)
   \<and> bob_id \<notin> set (following alice)
   \<and> alice_id \<notin> set (followers bob)
   \<and> validates alice
   \<and> validates bob
   \<and> snd (removeFollowing alice_id bob_id (snd (addFollowing alice_id bob_id [alice, bob])))
        = [alice, bob]
   \<and> (\<exists>d1. addFollowing alice_id bob_id [alice, bob] = (Inr (), d1)
         \<and> removeFollowing alice_id bob_id d1 = (Inr (), [alice, bob]))"
proof -
  have h3: "bob_id \<notin> set (following alice)" by (simp add: sample_lists)
  have h4: "alice_id \<notin> set (followers bob)" by (simp add: sample_lists)
  show ?thesis
    using follow_unfollow_roundtrip [OF find_alice find_bob h3 h4] find_alice find_bob h3 h4
      validates_samples
    by simp
qed

text \<open>
  An instance with a throw on the way: Bob's stored document has an empty \<^verbatim>\<open>full_name\<close>.
  The follow writes Alice's following list and then throws on Bob's \<^verbatim>\<open>save()\<close>; the
  unfollow removes the entry again and finds nothing to remove on Bob's side.
\<close>

lemma follow_unfollow_invalid_target:
  "addFollowing alice_id bob_id [alice, bob\<lparr>full_name := []\<rparr>]
     = (Inl ValidationError, [alice\<lparr>following := [bob_id]\<rparr>, bob\<lparr>full_name := []\<rparr>])
   \<and> removeFollowing alice_id bob_id [alice\<lparr>following := [bob_id]\<rparr>, bob\<lparr>full_name := []\<rparr>]
     = (Inr (), [alice, bob\<lparr>full_name := []\<rparr>])"
  by (simp add: addFollowing_def removeFollowing_def findUserById_def findById_def valid_ids
      ids_differ oid_ids save_following_def save_followers_def validates_def
      validates_samples[unfolded validates_def] alice_fields bob_fields sample_lists)

section \<open>Following oneself\<close>

text \<open>
  The guarded \<^verbatim>\<open>UserController.followUser\<close> refuses a caller whose request names the
  caller's own identity string: status 400, \<^verbatim>\<open>You cannot follow yourself\<close>, nothing written.
\<close>

lemma followUser_self:
  assumes "req_user = Some A" and "A \<noteq> []"
  shows "followUser req_user A d = ((400, Message ''You cannot follow yourself''), d)"
  using assms by (simp add: followUser_def validateAuthentication_def)

text \<open>
  Claim C4 fails on the route-mounted service. \<^verbatim>\<open>UserService.followUser\<close> has no guard:
  with both identifiers Alice's it returns normally and writes Alice into her own
  following and followers lists.
\<close>

theorem svc_followUser_self:
  "svc_followUser alice_id alice_id [alice, bob]
     = (Inr (), [alice\<lparr>following := [alice_id], followers := [alice_id]\<rparr>, bob])"
  by (simp add: svc_followUser_def findByIdAndUpdate_def
      addToSet_def valid_ids ids_differ oid_ids alice_fields bob_fields sample_lists)

text \<open>
  The guard of the guarded controller compares the two strings, while the lookups
  compare ObjectIds: Alice's identifier written in upper-case digits passes the guard
  and reaches her own document, which then follows itself.
\<close>

lemma followUser_self_upper_case:
  "followUser (Some alice_id) alice_upper_id [alice, bob]
     = ((200, Message ''Now you are following this user''),
        [alice\<lparr>following := [alice_upper_id], followers := [alice_id]\<rparr>, bob])
   \<and> \<not> irreflexive [alice\<lparr>following := [alice_upper_id], followers := [alice_id]\<rparr>, bob]"
  by (simp add: followUser_def valid_auth addFollowing_def findUserById_def findById_def
      valid_ids ids_differ oid_ids save_following_def save_followers_def validates_def
      validates_samples[unfolded validates_def] alice_fields bob_fields sample_lists
      irreflexive_def no_self_relation_def)

section \<open>Irreflexivity of the relation lists\<close>

lemma irreflexive_updateById:
  "irreflexive d \<Longrightarrow>
   (\<And>u. oid (uid u) = oid i \<Longrightarrow> no_self_relation u \<Longrightarrow> no_self_relation (f u)) \<Longrightarrow>
   irreflexive (updateById i f d)"
  unfolding irreflexive_def by (induction d) auto

lemma irreflexive_findById:
  "irreflexive d \<Longrightarrow> findById i d = Some u \<Longrightarrow> no_self_relation u"
  unfolding irreflexive_def findById_def by (induction d) (auto split: if_splits)

lemma snd_save_following:
  "snd (save_following doc d) = d
   \<or> snd (save_following doc d) = updateById (uid doc) (\<lambda>u. u\<lparr>following := following doc\<rparr>) d"
  by (simp add: save_following_def)

lemma snd_save_followers:
  "snd (save_followers doc d) = d
   \<or> snd (save_followers doc d) = updateById (uid doc) (\<lambda>u. u\<lparr>followers := followers doc\<rparr>) d"
  by (simp add: save_followers_def)

lemma irreflexive_save_following:
  assumes "irreflexive d" and "findById i d = Some usr" and "uid doc = uid usr"
      and "oid (uid usr) \<notin> set (map oid (following doc))"
  shows "irreflexive (snd (save_following doc d))"
proof -
  have "irreflexive (updateById (uid doc) (\<lambda>u. u\<lparr>following := following doc\<rparr>) d)"
    using assms by (intro irreflexive_updateById) (auto simp add: no_self_relation_def)
  with assms(1) snd_save_following[of doc d] show ?thesis by auto
qed

lemma irreflexive_save_followers:
  assumes "irreflexive d" and "uid doc = uid usr"
      and "oid (uid usr) \<notin> set (map oid (followers doc))"
  shows "irreflexive (snd (save_followers doc d))"
proof -
  have "irreflexive (updateById (uid doc) (\<lambda>u. u\<lparr>followers := followers doc\<rparr>) d)"
    using assms by (intro irreflexive_updateById) (auto simp add: no_self_relation_def)
  with assms(1) snd_save_followers[of doc d] show ?thesis by auto
qed

lemma irreflexive_addFollowing:
  assumes irr: "irreflexive d" and ne: "oid userId \<noteq> oid followId"
  shows "irreflexive (snd (addFollowing userId followId d))"
proof (cases "\<exists>usr t. findUserById userId d = Inr (Some usr) \<and> findUserById followId d = Inr (Some t)
                 \<and> followId \<notin> set (following usr)")
  case False
  then show ?thesis using irr
    by (auto simp add: addFollowing_def split: sum.splits option.splits)
next
  case True
  then obtain usr t where u: "findUserById userId d = Inr (Some usr)"
    and t: "findUserById followId d = Inr (Some t)" and nf: "followId \<notin> set (following usr)"
    by blast
  from u have fu: "findById userId d = Some usr" and iu: "oid (uid usr) = oid userId"
    using findUserById_Some by blast+
  from t have ft: "findById followId d = Some t" and it: "oid (uid t) = oid followId"
    using findUserById_Some by blast+
  have su: "no_self_relation usr" and st: "no_self_relation t"
    using irreflexive_findById[OF irr fu] irreflexive_findById[OF irr ft] by simp_all
  define r1 where "r1 = save_following (usr\<lparr>following := following usr @ [followId]\<rparr>) d"
  have i1: "irreflexive (snd r1)"
    unfolding r1_def using su iu ne
    by (intro irreflexive_save_following[OF irr fu]) (auto simp add: no_self_relation_def)
  have i2: "irreflexive (snd (save_followers (t\<lparr>followers := followers t @ [userId]\<rparr>) (snd r1)))"
    using st it ne
    by (intro irreflexive_save_followers[OF i1, where usr = t])
       (auto simp add: no_self_relation_def)
  have "snd (addFollowing userId followId d) = snd r1
        \<or> snd (addFollowing userId followId d)
            = snd (save_followers (t\<lparr>followers := followers t @ [userId]\<rparr>) (snd r1))"
    using u t nf by (cases r1) (auto simp add: addFollowing_def r1_def[symmetric] split: sum.splits)
  with i1 i2 show ?thesis by auto
qed

lemma irreflexive_removeFollowing:
  assumes irr: "irreflexive d"
  shows "irreflexive (snd (removeFollowing userId unfollowId d))"
proof (cases "\<exists>usr. findUserById userId d = Inr (Some usr) \<and> unfollowId \<in> set (following usr)")
  case False
  then show ?thesis using irr
    by (auto simp add: removeFollowing_def split: sum.splits option.splits)
next
  case True
  then obtain usr where u: "findUserById userId d = Inr (Some usr)"
    and f: "unfollowId \<in> set (following usr)" by blast
  from u have fu: "findById userId d = Some usr"
    using findUserById_Some by blast
  have su: "no_self_relation usr" using irreflexive_findById[OF irr fu] .
  define r1 where
    "r1 = save_following (usr\<lparr>following := filter (\<lambda>i. i \<noteq> unfollowId) (following usr)\<rparr>) d"
  have i1: "irreflexive (snd r1)"
    unfolding r1_def using su
    by (intro irreflexive_save_following[OF irr fu]) (auto simp add: no_self_relation_def)
  have i2: "irreflexive (snd (save_followers
                (t\<lparr>followers := filter (\<lambda>i. i \<noteq> userId) (followers t)\<rparr>) (snd r1)))"
    if "findById unfollowId (snd r1) = Some t" for t
    using irreflexive_findById[OF i1 that]
    by (intro irreflexive_save_followers[OF i1, where usr = t])
       (auto simp add: no_self_relation_def)
  have "snd (removeFollowing userId unfollowId d) = snd r1
        \<or> (\<exists>t. findById unfollowId (snd r1) = Some t
              \<and> snd (removeFollowing userId unfollowId d)
                  = snd (save_followers
                       (t\<lparr>followers := filter (\<lambda>i. i \<noteq> userId) (followers t)\<rparr>) (snd r1)))"
    using u f by (cases r1)
      (auto simp add: removeFollowing_def r1_def[symmetric] findUserById_def
        split: sum.splits option.splits if_splits)
  with i1 i2 show ?thesis by auto
qed

lemma irreflexive_findByIdAndUpdate:
  "irreflexive d \<Longrightarrow>
   (\<And>u. oid (uid u) = oid i \<Longrightarrow> no_self_relation u \<Longrightarrow> no_self_relation (f u)) \<Longrightarrow>
   irreflexive (snd (findByIdAndUpdate i f d))"
  by (simp add: findByIdAndUpdate_def irreflexive_updateById)

lemma snd_seq:
  "snd (case findByIdAndUpdate i f d of (Inl e, d1) \<Rightarrow> (Inl e, d1) | (Inr x, d1) \<Rightarrow> findByIdAndUpdate j g d1)
   = (if isValid i then snd (findByIdAndUpdate j g (updateById i f d)) else d)"
  by (simp add: findByIdAndUpdate_def)

lemma snd_followUser:
  "snd (followUser req_user followId d) =
     (case validateAuthentication req_user of None \<Rightarrow> d
      | Some userId \<Rightarrow> if userId = followId then d else snd (addFollowing userId followId d))"
  by (auto simp add: followUser_def split: option.splits prod.splits sum.splits)

lemma snd_unfollowUser:
  "snd (unfollowUser req_user unfollowId d) =
     (case validateAuthentication req_user of None \<Rightarrow> d
      | Some userId \<Rightarrow> if userId = unfollowId then d else snd (removeFollowing userId unfollowId d))"
  by (auto simp add: unfollowUser_def split: option.splits prod.splits sum.splits)

lemma set_pull: "set (pull y xs) = set xs - {y}"
  by (auto simp add: pull_def)

text \<open>
  Claim C5, as the code has it. Starting from an irreflexive collection: the guarded
  controller's follow leaves it irreflexive when there is no caller, when \<^verbatim>\<open>followId\<close> is
  the caller's identity string itself (the call is refused) and when the two
  identifiers denote different ObjectIds; the guarded controller's unfollow and the
  route-mounted service's unfollow leave it irreflexive whatever their arguments; the
  route-mounted service's follow and connect leave it irreflexive when their two
  identifiers denote different ObjectIds.
\<close>

theorem relationship_operations_irreflexive:
  assumes "irreflexive d"
  shows "irreflexive (snd (followUser None followId d))
       \<and> (userId = followId \<or> oid userId \<noteq> oid followId
            \<longrightarrow> irreflexive (snd (followUser (Some userId) followId d)))
       \<and> irreflexive (snd (unfollowUser req_user unfollowId d))
       \<and> irreflexive (snd (svc_unfollowUser userId targetId d))
       \<and> (oid userId \<noteq> oid targetId \<longrightarrow> irreflexive (snd (svc_followUser userId targetId d)))
       \<and> (oid userId \<noteq> oid targetId \<longrightarrow> irreflexive (snd (svc_connectUsers userId targetId d)))"
proof (intro conjI impI)
  show "irreflexive (snd (followUser None followId d))"
    using assms by (simp add: snd_followUser validateAuthentication_def)
  show "irreflexive (snd (followUser (Some userId) followId d))"
    if "userId = followId \<or> oid userId \<noteq> oid followId"
    using assms that irreflexive_addFollowing[OF assms, of userId followId]
    by (auto simp add: snd_followUser validateAuthentication_def split: option.splits)
  show "irreflexive (snd (unfollowUser req_user unfollowId d))"
    using assms irreflexive_removeFollowing[OF assms]
    by (simp add: snd_unfollowUser split: option.splits)
  show "irreflexive (snd (svc_unfollowUser userId targetId d))"
    unfolding svc_unfollowUser_def snd_seq using assms
    by (auto intro!: irreflexive_findByIdAndUpdate irreflexive_updateById
        simp add: no_self_relation_def set_pull)
  show "irreflexive (snd (svc_followUser userId targetId d))" if "oid userId \<noteq> oid targetId"
    unfolding svc_followUser_def snd_seq using assms that
    by (auto intro!: irreflexive_findByIdAndUpdate irreflexive_updateById
        simp add: no_self_relation_def addToSet_def)
  show "irreflexive (snd (svc_connectUsers userId targetId d))" if "oid userId \<noteq> oid targetId"
    unfolding svc_connectUsers_def snd_seq using assms that
    by (auto intro!: irreflexive_findByIdAndUpdate irreflexive_updateById
        simp add: no_self_relation_def addToSet_def)
qed

theorem relationship_operations_irreflexive_witness:
  "irreflexive [alice, bob]
   \<and> oid alice_id \<noteq> oid bob_id
   \<and> irreflexive (snd (followUser None bob_id [alice, bob]))
   \<and> irreflexive (snd (followUser (Some alice_id) bob_id [alice, bob]))
   \<and> irreflexive (snd (unfollowUser (Some alice_id) bob_id [alice, bob]))
   \<and> irreflexive (snd (svc_unfollowUser alice_id bob_id [alice, bob]))
   \<and> irreflexive (snd (svc_followUser alice_id bob_id [alice, bob]))
   \<and> irreflexive (snd (svc_connectUsers alice_id bob_id [alice, bob]))"
proof -
  have h: "irreflexive [alice, bob]"
    by (simp add: irreflexive_def no_self_relation_def alice_fields bob_fields sample_lists)
  have ne: "oid alice_id \<noteq> oid bob_id" by (simp add: oid_ids ids_differ)
  show ?thesis
    using relationship_operations_irreflexive [OF h, where followId = bob_id
        and userId = alice_id and req_user = "Some alice_id" and unfollowId = bob_id
        and targetId = bob_id] h ne
    by simp
qed

text \<open>
  The claim as stated fails on connect: \<^verbatim>\<open>UserService.connectUsers\<close> has no guard, and
  with both identifiers equal it puts a user into its own connections list.
\<close>

theorem connectUsers_self_relation:
  "irreflexive [alice, bob]
   \<and> svc_connectUsers alice_id alice_id [alice, bob]
       = (Inr (), [alice\<lparr>connections := [alice_id]\<rparr>, bob])
   \<and> \<not> irreflexive [alice\<lparr>connections := [alice_id]\<rparr>, bob]"
  by (simp add: irreflexive_def no_self_relation_def svc_connectUsers_def findByIdAndUpdate_def
      addToSet_def valid_ids ids_differ oid_ids alice_fields bob_fields sample_lists)

section \<open>A taken username\<close>

lemma deleteImage_never_throws: "fst (deleteImage cl url) = Inr ()"
  by (simp add: deleteImage_def split: prod.splits sum.splits)

lemma handleImageUploads_keeps:
  "handleImageUploads cl req upd U = Inr data \<Longrightarrow>
   ud_username data = ud_username upd \<and> ud_bio data = ud_bio upd
   \<and> ud_location data = ud_location upd \<and> ud_full_name data = ud_full_name upd"
  by (auto simp add: handleImageUploads_def split: option.splits sum.splits list.splits)

lemma handleImageUploads_succeeds:
  assumes "\<And>p. f_profile req = Some p \<Longrightarrow> \<exists>url. uploadImage cl p ''profiles'' = Inr url"
      and "\<And>c. f_cover req = Some c \<Longrightarrow> \<exists>url. uploadImage cl c ''covers'' = Inr url"
  shows "\<exists>data. handleImageUploads cl req upd U = Inr data"
proof -
  have d: "fst (deleteImage cl x) = Inr ()" for x
    by (simp add: deleteImage_def split: prod.splits sum.splits)
  show ?thesis
  proof (cases "f_profile req")
    case None
    then show ?thesis using assms(2)
      by (cases "f_cover req") (auto simp add: handleImageUploads_def d doc_cover_def)
  next
    case (Some p)
    then obtain url where "uploadImage cl p ''profiles'' = Inr url" using assms(1) by blast
    with Some show ?thesis using assms(2)
      by (cases "f_cover req") (auto simp add: handleImageUploads_def d doc_cover_def doc_profile_def)
  qed
qed

lemma findOne_username_taken:
  "V \<in> set d \<Longrightarrow> username V = Some Y \<Longrightarrow> \<exists>W. findOne_username Y d = Some W"
  unfolding findOne_username_def by (induction d) auto

lemma username_apply_update_data:
  "ud_username upd = username u \<Longrightarrow> username (apply_update_data upd u) = username u"
  by (cases "username u") (simp_all add: apply_update_data_def)

lemma upload_png: "uploadImage good_host png_file ''profiles''
    = Inr ''https://res.cloudinary.com/demo/image/upload/v2/user-uploads/new.webp''"
  by (simp add: uploadImage_def uploadImage_try_def good_host_def png_file_def allowedTypes_def
      checked_url_def)

text \<open>
  Claim C6, as the code has it. The caller is an existing user U whose username is X,
  the request asks for a different username Y, and some stored user has username Y.
  Provided every image file the request carries is uploaded successfully,
  \<^verbatim>\<open>updateUserId\<close> answers 200 with \<^verbatim>\<open>success\<close> and the updated user, and the stored user
  and the returned object both still have username X.
\<close>

theorem updateUserId_taken_username:
  assumes auth: "validateAuthentication (r_user req) = Some i"
      and found: "findUserById i d = Inr (Some U)"
      and cur: "username U = Some X"
      and want: "b_username req = Some Y" "Y \<noteq> []" "Y \<noteq> X"
      and taken: "V \<in> set d" "username V = Some Y"
      and up1: "\<And>p. f_profile req = Some p \<Longrightarrow> \<exists>url. uploadImage cl p ''profiles'' = Inr url"
      and up2: "\<And>c. f_cover req = Some c \<Longrightarrow> \<exists>url. uploadImage cl c ''covers'' = Inr url"
  shows "\<exists>U' d'. updateUserId cl req d = ((200, UpdateOk (safeUser U')), d')
           \<and> findById i d' = Some U' \<and> username U' = Some X \<and> o_username (safeUser U') = Some X"
proof -
  from found have vi: "isValid i" and fi: "findById i d = Some U" and ui: "oid (uid U) = oid i"
    using findUserById_Some by blast+
  have vU: "isValid (uid U)" using vi ui isValid_oid[of "uid U"] isValid_oid[of i] by simp
  have fU: "findById (uid U) d = Some U" using fi findById_oid[OF ui, of d] by simp
  obtain c cs where Y: "Y = c # cs" using want(2) by (cases Y) auto
  obtain W where W: "findOne_username Y d = Some W"
    using findOne_username_taken[OF taken] by blast
  define upd where
    "upd = \<lparr>ud_username = username U, ud_bio = b_bio req, ud_location = b_location req,
            ud_full_name = b_full_name req, ud_profile = None, ud_cover = None\<rparr>"
  obtain data where data: "handleImageUploads cl req upd U = Inr data"
    using handleImageUploads_succeeds[OF up1 up2] by blast
  then have du: "ud_username data = username U"
    using handleImageUploads_keeps[OF data] by (simp add: upd_def)
  define U' where "U' = apply_update_data data U"
  have uU': "username U' = Some X" "uid U' = uid U"
    using username_apply_update_data[OF du] cur by (simp_all add: U'_def apply_update_data_def)
  have data': "handleImageUploads cl req
                 \<lparr>ud_username = Some X, ud_bio = b_bio req, ud_location = b_location req,
                  ud_full_name = b_full_name req, ud_profile = None, ud_cover = None\<rparr> U = Inr data"
    using data cur by (simp add: upd_def)
  have run: "updateUserId cl req d
               = ((200, UpdateOk (safeUser U')), updateById (uid U) (apply_update_data data) d)"
    using auth found want(1) want(3) cur W data' vU fU
    by (simp add: updateUserId_def Y core_updateUser_def U'_def Let_def)
  have "findById i (updateById (uid U) (apply_update_data data) d) = Some U'"
    using fi ui by (simp add: findById_updateById apply_update_data_def U'_def)
  with run uU' show ?thesis by (simp add: safeUser_def toObject_def)
qed

theorem updateUserId_taken_username_witness:
  "validateAuthentication (r_user rename_request) = Some alice_id
   \<and> findUserById alice_id [alice, bob] = Inr (Some alice)
   \<and> username alice = Some ''alice''
   \<and> b_username rename_request = Some ''bob''
   \<and> bob \<in> set [alice, bob] \<and> username bob = Some ''bob''
   \<and> f_profile rename_request = Some png_file \<and> f_cover rename_request = None
   \<and> (\<exists>url. uploadImage good_host png_file ''profiles'' = Inr url)
   \<and> (\<exists>U' d'. updateUserId good_host rename_request [alice, bob]
                  = ((200, UpdateOk (safeUser U')), d')
          \<and> findById alice_id d' = Some U' \<and> username U' = Some ''alice''
          \<and> o_username (safeUser U') = Some ''alice'')"
proof -
  have h1: "validateAuthentication (r_user rename_request) = Some alice_id"
    by (simp add: rename_request_def valid_auth)
  have h4: "b_username rename_request = Some ''bob''" "''bob'' \<noteq> []" "''bob'' \<noteq> ''alice''"
    by (simp_all add: rename_request_def)
  have h5: "bob \<in> set [alice, bob]" by simp
  have fp: "f_profile rename_request = Some png_file" "f_cover rename_request = None"
    by (simp_all add: rename_request_def)
  have up1: "\<exists>url. uploadImage good_host p ''profiles'' = Inr url"
    if "f_profile rename_request = Some p" for p
    using that fp upload_png by simp
  have up2: "\<exists>url. uploadImage good_host c ''covers'' = Inr url"
    if "f_cover rename_request = Some c" for c
    using that fp by simp
  show ?thesis
    using updateUserId_taken_username [OF h1 find_alice alice_fields(2) h4 h5 bob_fields(2) up1 up2]
      h1 find_alice alice_fields(2) h4 h5 bob_fields(2) fp upload_png
    by simp
qed

text \<open>
  The proviso is needed. The same request with an image the host rejects is answered
  with status 500: the update as a whole fails, taken username or not.
\<close>

theorem updateUserId_taken_username_upload_fails:
  "validateAuthentication (r_user rename_request) = Some alice_id
   \<and> findUserById alice_id [alice, bob] = Inr (Some alice)
   \<and> username alice = Some ''alice''
   \<and> b_username rename_request = Some ''bob''
   \<and> bob \<in> set [alice, bob] \<and> username bob = Some ''bob''
   \<and> updateUserId no_host rename_request [alice, bob]
       = ((500, ErrorBody ''Error in updateUserId''
                  ''Cloudinary upload failed: Upload failed: host down''), [alice, bob])"
proof -
  have up: "uploadImage no_host png_file ''profiles''
              = Inl (Error ''Cloudinary upload failed: Upload failed: host down'')"
    by (simp add: uploadImage_def uploadImage_try_def no_host_def png_file_def allowedTypes_def)
  have taken: "findOne_username ''bob'' [alice, bob] = Some bob"
    by (simp add: findOne_username_def alice_fields bob_fields)
  have run: "updateUserId no_host rename_request [alice, bob]
       = ((500, ErrorBody ''Error in updateUserId''
                  ''Cloudinary upload failed: Upload failed: host down''), [alice, bob])"
    by (simp add: updateUserId_def rename_request_def valid_auth find_alice alice_fields taken
        handleImageUploads_def doc_profile_def up handleError_def Let_def)
  show ?thesis
    using run find_alice alice_fields bob_fields by (simp add: rename_request_def valid_auth)
qed

text \<open>The same holds of the copy of the controller in unnamed/part_003.\<close>

lemma p3_handleImageUploads_keeps:
  "p3_handleImageUploads cl req upd U = Inr data \<Longrightarrow>
   ud_username data = ud_username upd \<and> ud_bio data = ud_bio upd
   \<and> ud_location data = ud_location upd \<and> ud_full_name data = ud_full_name upd"
  by (auto simp add: p3_handleImageUploads_def split: option.splits sum.splits list.splits)

lemma p3_handleImageUploads_succeeds:
  assumes "\<And>p. b3_profile req = Some p \<Longrightarrow> p \<noteq> [] \<Longrightarrow> \<exists>url. p3_uploadImage cl p ''profiles'' = Inr url"
      and "\<And>c. b3_cover req = Some c \<Longrightarrow> c \<noteq> [] \<Longrightarrow> \<exists>url. p3_uploadImage cl c ''covers'' = Inr url"
  shows "\<exists>data. p3_handleImageUploads cl req upd U = Inr data"
proof -
  have a: "\<exists>data1. (case b3_profile req of
              Some (p # ps) \<Rightarrow>
                (case (case doc_profile U of
                         Some (c # old) \<Rightarrow> fst (deleteImage cl (c # old))
                       | _ \<Rightarrow> Inr ()) of
                   Inl e \<Rightarrow> Inl e
                 | Inr _ \<Rightarrow>
                     (case p3_uploadImage cl (p # ps) ''profiles'' of
                        Inl e \<Rightarrow> Inl e
                      | Inr url \<Rightarrow> Inr (upd\<lparr>ud_profile := Some url\<rparr>)))
            | _ \<Rightarrow> Inr upd) = Inr data1"
    using assms(1) by (auto simp add: doc_profile_def split: option.splits list.splits)
  then obtain data1 where d1: "(case b3_profile req of
              Some (p # ps) \<Rightarrow>
                (case (case doc_profile U of
                         Some (c # old) \<Rightarrow> fst (deleteImage cl (c # old))
                       | _ \<Rightarrow> Inr ()) of
                   Inl e \<Rightarrow> Inl e
                 | Inr _ \<Rightarrow>
                     (case p3_uploadImage cl (p # ps) ''profiles'' of
                        Inl e \<Rightarrow> Inl e
                      | Inr url \<Rightarrow> Inr (upd\<lparr>ud_profile := Some url\<rparr>)))
            | _ \<Rightarrow> Inr upd) = Inr data1" by blast
  have "\<exists>data. (case b3_cover req of
             Some (p # ps) \<Rightarrow>
               (case (case doc_cover U of
                        Some (c # old) \<Rightarrow> fst (deleteImage cl (c # old))
                      | _ \<Rightarrow> Inr ()) of
                  Inl e \<Rightarrow> Inl e
                | Inr _ \<Rightarrow>
                    (case p3_uploadImage cl (p # ps) ''covers'' of
                       Inl e \<Rightarrow> Inl e
                     | Inr url \<Rightarrow> Inr (data1\<lparr>ud_cover := Some url\<rparr>)))
           | _ \<Rightarrow> Inr data1) = Inr data"
    using assms(2) by (auto simp add: doc_cover_def split: option.splits list.splits)
  with d1 show ?thesis by (simp add: p3_handleImageUploads_def)
qed

lemma part3_taken_username:
  assumes auth: "validateAuthentication (r3_user req) = Some i"
      and found: "findUserById i d = Inr (Some U)"
      and cur: "username U = Some X"
      and want: "b3_username req = Some Y" "Y \<noteq> []" "Y \<noteq> X"
      and taken: "V \<in> set d" "username V = Some Y"
      and up1: "\<And>p. b3_profile req = Some p \<Longrightarrow> p \<noteq> [] \<Longrightarrow> \<exists>url. p3_uploadImage cl p ''profiles'' = Inr url"
      and up2: "\<And>c. b3_cover req = Some c \<Longrightarrow> c \<noteq> [] \<Longrightarrow> \<exists>url. p3_uploadImage cl c ''covers'' = Inr url"
  shows "\<exists>U' d'. p3_updateUserId cl req d = ((200, UpdateOk (safeUser U')), d')
           \<and> findById i d' = Some U' \<and> username U' = Some X \<and> o_username (safeUser U') = Some X"
proof -
  from found have vi: "isValid i" and fi: "findById i d = Some U" and ui: "oid (uid U) = oid i"
    using findUserById_Some by blast+
  have vU: "isValid (uid U)" using vi ui isValid_oid[of "uid U"] isValid_oid[of i] by simp
  have fU: "findById (uid U) d = Some U" using fi findById_oid[OF ui, of d] by simp
  obtain c cs where Y: "Y = c # cs" using want(2) by (cases Y) auto
  obtain W where W: "findOne_username Y d = Some W"
    using findOne_username_taken[OF taken] by blast
  obtain data where data: "p3_handleImageUploads cl req
                 \<lparr>ud_username = Some X, ud_bio = b3_bio req, ud_location = b3_location req,
                  ud_full_name = b3_full_name req, ud_profile = None, ud_cover = None\<rparr> U = Inr data"
    using p3_handleImageUploads_succeeds[OF up1 up2] by blast
  then have du: "ud_username data = username U"
    using p3_handleImageUploads_keeps[OF data] cur by simp
  define U' where "U' = apply_update_data data U"
  have uU': "username U' = Some X" "uid U' = uid U"
    using username_apply_update_data[OF du] cur by (simp_all add: U'_def apply_update_data_def)
  have run: "p3_updateUserId cl req d
               = ((200, UpdateOk (safeUser U')), updateById (uid U) (apply_update_data data) d)"
    using auth found want(1) want(3) cur W data vU fU
    by (simp add: p3_updateUserId_def Y core_updateUser_def U'_def Let_def)
  have "findById i (updateById (uid U) (apply_update_data data) d) = Some U'"
    using fi ui by (simp add: findById_updateById apply_update_data_def U'_def)
  with run uU' show ?thesis by (simp add: safeUser_def toObject_def)
qed

section \<open>Passwords in payloads\<close>

text \<open>
  Claim C7 fails on the route-mounted controllers. \<^verbatim>\<open>GET /users/:id\<close> for Alice hands her
  whole document to the payload, stored password hash included.
\<close>

theorem getUserById_sends_password:
  "ctl_getUserById alice_id [alice, bob]
     = Success ''Fetched user successfully'' (UserData (toObject alice))
   \<and> o_password (toObject alice) = Some ''$2b$10$alicehash''
   \<and> \<not> password_absent (UserData (toObject alice))"
  by (simp add: ctl_getUserById_def svc_getUserById_def valid_ids findById_alice handleRequest_def
      password_absent_def toObject_def alice_fields)
    (simp add: alice_def)

text \<open>
  So do the other handlers of these controllers whose payload holds a user: a
  non-empty listing, a user found by username, a successful login.
\<close>

lemma getAllUsers_sends_passwords:
  "ctl_getAllUsers (u # d) = Success ''Fetched all users successfully'' (UsersData (map toObject (u # d)))
   \<and> \<not> password_absent (UsersData (map toObject (u # d)))"
  by (simp add: ctl_getAllUsers_def svc_getAllUsers_def handleRequest_def password_absent_def
      toObject_def)

lemma login_sends_password:
  "login compare sign mail pw d = Success m x \<Longrightarrow> \<not> password_absent x"
  by (auto simp add: login_def handleRequest_def password_absent_def toObject_def
      split: option.splits if_splits)

lemma getUserByUsername_sends_password:
  "ctl_getUserByUsername n d = Success m x \<Longrightarrow> \<not> password_absent x"
  by (auto simp add: ctl_getUserByUsername_def handleRequest_def password_absent_def toObject_def
      split: option.splits)

text \<open>The guarded controller's \<^verbatim>\<open>getUserId\<close> removes the key before it answers.\<close>

lemma getUserId_strips_password:
  "getUserId req_user d = (200, UserBody obj) \<Longrightarrow> o_password obj = None"
  by (auto simp add: getUserId_def safeUser_def handleError_def
      split: option.splits sum.splits)

section \<open>Search\<close>







section \<open>Fields an update does not specify\<close>

lemma snd_core_updateUser:
  "snd (case core_updateUser k data d of
          (Inl e, d') \<Rightarrow> (handleError e m, d')
        | (Inr None, d') \<Rightarrow> (handleError e0 m, d')
        | (Inr (Some updatedUser), d') \<Rightarrow> ((200, UpdateOk (safeUser updatedUser)), d'))
   = (if isValid k then updateById k (apply_update_data data) d else d)"
  by (simp add: core_updateUser_def split: option.splits)

lemma snd_updateUserId:
  "snd (updateUserId cl req d) = d
   \<or> (\<exists>data k. snd (updateUserId cl req d) = updateById k (apply_update_data data) d
        \<and> b_username req \<noteq> None \<and> ud_bio data = b_bio req
        \<and> ud_location data = b_location req \<and> ud_full_name data = b_full_name req)"
proof (cases "validateAuthentication (r_user req)")
  case None
  then show ?thesis by (simp add: updateUserId_def)
next
  case (Some i)
  note auth = this
  show ?thesis
  proof (cases "findUserById i d")
    case (Inl e)
    with auth show ?thesis by (simp add: updateUserId_def)
  next
    case (Inr found)
    show ?thesis
    proof (cases found)
      case None
      with auth Inr show ?thesis by (simp add: updateUserId_def)
    next
      case (Some U)
      note U = this
      show ?thesis
      proof (cases "b_username req")
        case None
        with auth Inr U show ?thesis by (simp add: updateUserId_def)
      next
        case (Some n)
        show ?thesis
        proof (cases n)
          case Nil
          with auth Inr U Some show ?thesis by (simp add: updateUserId_def)
        next
          case (Cons c cs)
          define upd where
            "upd = \<lparr>ud_username =
                      (if username U \<noteq> Some (c # cs)
                       then (case findOne_username (c # cs) d of
                               None \<Rightarrow> Some (c # cs)
                             | Some existingUser \<Rightarrow> username U)
                       else username U),
                    ud_bio = b_bio req, ud_location = b_location req,
                    ud_full_name = b_full_name req, ud_profile = None, ud_cover = None\<rparr>"
          have run: "snd (updateUserId cl req d) =
                snd (case handleImageUploads cl req upd U of
                       Inl e \<Rightarrow> (handleError e ''Error in updateUserId'', d)
                     | Inr data \<Rightarrow>
                         (case core_updateUser (uid U) data d of
                            (Inl e, d') \<Rightarrow> (handleError e ''Error in updateUserId'', d')
                          | (Inr None, d') \<Rightarrow>
                              (handleError (Error ''Cannot read properties of null'')
                                 ''Error in updateUserId'', d')
                          | (Inr (Some updatedUser), d') \<Rightarrow>
                              ((200, UpdateOk (safeUser updatedUser)), d')))"
            using auth Inr U Some Cons by (simp add: updateUserId_def upd_def Let_def)
          show ?thesis
          proof (cases "handleImageUploads cl req upd U")
            case (Inl e)
            with run show ?thesis by simp
          next
            case (Inr data)
            have k: "ud_bio data = b_bio req \<and> ud_location data = b_location req
                     \<and> ud_full_name data = b_full_name req"
              using handleImageUploads_keeps[OF Inr] by (simp add: upd_def)
            have "snd (updateUserId cl req d) =
                    (if isValid (uid U) then updateById (uid U) (apply_update_data data) d else d)"
              using run Inr by (simp add: snd_core_updateUser)
            with k Some show ?thesis by (cases "isValid (uid U)") auto
          qed
        qed
      qed
    qed
  qed
qed

lemma core_kept_refl: "core_unspecified_kept req u u"
  by (simp add: core_unspecified_kept_def)

lemma core_kept_apply:
  "b_username req \<noteq> None \<Longrightarrow> ud_bio data = b_bio req \<Longrightarrow> ud_location data = b_location req \<Longrightarrow>
   ud_full_name data = b_full_name req \<Longrightarrow> core_unspecified_kept req u (apply_update_data data u)"
  by (auto simp add: core_unspecified_kept_def apply_update_data_def)

lemma core_frame:
  assumes "findById j d = Some u"
  shows "\<exists>u'. findById j (snd (updateUserId cl req d)) = Some u' \<and> core_unspecified_kept req u u'"
proof -
  consider "snd (updateUserId cl req d) = d"
    | data k where "snd (updateUserId cl req d) = updateById k (apply_update_data data) d"
        "b_username req \<noteq> None" "ud_bio data = b_bio req"
        "ud_location data = b_location req" "ud_full_name data = b_full_name req"
    using snd_updateUserId[of cl req d] by blast
  then show ?thesis
  proof cases
    case 1
    then show ?thesis using assms core_kept_refl by simp
  next
    case 2
    have "uid (apply_update_data data v) = uid v" for v by (simp add: apply_update_data_def)
    then have "findById j (updateById k (apply_update_data data) d)
               = (if oid k = oid j then Some (apply_update_data data u) else Some u)"
      using assms by (simp add: findById_updateById)
    then show ?thesis using 2 core_kept_refl core_kept_apply[OF 2(2-5)] by auto
  qed
qed

lemma slot_input_None: "a = None \<Longrightarrow> b = None \<Longrightarrow> slot_input a b = None"
  by (simp add: slot_input_def)

lemma profile_stage:
  "(case slot_input a b of
      None \<Rightarrow> (Inr (rest_of body), [])
    | Some incoming \<Rightarrow>
        let deleted = del
        in (case svc_uploadImage cl (built_file incoming) folder of
              (Inl e, calls) \<Rightarrow> (Inl e, deleted @ calls)
            | (Inr url, calls) \<Rightarrow>
                (Inr ((rest_of body)\<lparr>u_profile_image := Some url\<rparr>), deleted @ calls)))
     = (Inr upd, calls1) \<Longrightarrow>
   same_rest upd body \<and> u_cover_image upd = None
   \<and> (a = None \<and> b = None \<longrightarrow> u_profile_image upd = None)"
  by (auto simp add: same_rest_def rest_of_def slot_input_def Let_def
      split: option.splits prod.splits sum.splits if_splits)

lemma cover_stage:
  "(case slot_input a b of
      None \<Rightarrow> (Inr updates1, [])
    | Some incoming \<Rightarrow>
        let deleted = del
        in (case svc_uploadImage cl (built_file incoming) folder of
              (Inl e, calls) \<Rightarrow> (Inl e, deleted @ calls)
            | (Inr url, calls) \<Rightarrow>
                (Inr (updates1\<lparr>u_cover_image := Some url\<rparr>), deleted @ calls)))
     = (Inr upd, calls2) \<Longrightarrow>
   same_rest updates1 body \<Longrightarrow> u_cover_image updates1 = None \<Longrightarrow>
   same_rest upd body \<and> u_profile_image upd = u_profile_image updates1
   \<and> (a = None \<and> b = None \<longrightarrow> u_cover_image upd = None)"
  by (auto simp add: same_rest_def slot_input_def Let_def
      split: option.splits prod.splits sum.splits if_splits)

lemma db_ctl_updateUser:
  "fst (snd (ctl_updateUser cl i body d)) = d
   \<or> (\<exists>upd. fst (snd (ctl_updateUser cl i body d)) = updateById i (apply_updates upd) d
        \<and> same_rest upd body
        \<and> (u_profile body = None \<and> u_profile_image body = None \<longrightarrow> u_profile_image upd = None)
        \<and> (u_cover body = None \<and> u_cover_image body = None \<longrightarrow> u_cover_image upd = None))"
proof (cases "svc_getUserById i d")
  case (Inl e)
  then show ?thesis by (simp add: ctl_updateUser_def)
next
  case (Inr found)
  show ?thesis
  proof (cases found)
    case None
    with Inr show ?thesis by (simp add: ctl_updateUser_def)
  next
    case (Some existingUser)
    define st1 where "st1 =
      (case slot_input (u_profile body) (u_profile_image body) of
         None \<Rightarrow> (Inr (rest_of body), [])
       | Some incomingProfile \<Rightarrow>
           let deleted = (case profile_image existingUser of
                            [] \<Rightarrow> []
                          | c # old \<Rightarrow> snd (deleteImage cl (c # old)))
           in (case svc_uploadImage cl (built_file incomingProfile) ''profiles'' of
                 (Inl e, calls) \<Rightarrow> (Inl e, deleted @ calls)
               | (Inr profileUrl, calls) \<Rightarrow>
                   (Inr ((rest_of body)\<lparr>u_profile_image := Some profileUrl\<rparr>),
                    deleted @ calls)))"
    show ?thesis
    proof (cases st1)
      case (Pair r1 calls1)
      show ?thesis
      proof (cases r1)
        case (Inl e)
        with Inr Some Pair show ?thesis
          by (simp add: ctl_updateUser_def st1_def[symmetric])
      next
        case (Inr updates1)
        note r1 = this
        have p1: "same_rest updates1 body \<and> u_cover_image updates1 = None
                  \<and> (u_profile body = None \<and> u_profile_image body = None
                       \<longrightarrow> u_profile_image updates1 = None)"
          using profile_stage[OF Pair[unfolded st1_def r1]] .
        define st2 where "st2 =
          (case slot_input (u_cover body) (u_cover_image body) of
             None \<Rightarrow> (Inr updates1, [])
           | Some incomingCover \<Rightarrow>
               let deleted = (case cover_image existingUser of
                                [] \<Rightarrow> []
                              | c # old \<Rightarrow> snd (deleteImage cl (c # old)))
               in (case svc_uploadImage cl (built_file incomingCover) ''covers'' of
                     (Inl e, calls) \<Rightarrow> (Inl e, deleted @ calls)
                   | (Inr coverUrl, calls) \<Rightarrow>
                       (Inr (updates1\<lparr>u_cover_image := Some coverUrl\<rparr>), deleted @ calls)))"
        show ?thesis
        proof (cases st2)
          case (Pair r2 calls2)
          note st2v = this
          show ?thesis
          proof (cases r2)
            case (Inl e)
            with \<open>svc_getUserById i d = Inr found\<close> Some \<open>st1 = (r1, calls1)\<close> r1 st2v
            show ?thesis
              by (simp add: ctl_updateUser_def st1_def[symmetric] st2_def[symmetric])
          next
            case (Inr upd)
            have p2: "same_rest upd body \<and> u_profile_image upd = u_profile_image updates1
                      \<and> (u_cover body = None \<and> u_cover_image body = None
                           \<longrightarrow> u_cover_image upd = None)"
              using cover_stage[OF st2v[unfolded st2_def Inr]] p1 by blast
            have "fst (snd (ctl_updateUser cl i body d))
                    = (if isValid i then updateById i (apply_updates upd) d else d)"
              using \<open>svc_getUserById i d = Inr found\<close> Some \<open>st1 = (r1, calls1)\<close> r1 st2v Inr
              by (simp add: ctl_updateUser_def st1_def[symmetric] st2_def[symmetric]
                  svc_updateUser_def split: option.splits)
            with p1 p2 show ?thesis by (cases "isValid i") auto
          qed
        qed
      qed
    qed
  qed
qed

lemma svc_kept_refl: "svc_unspecified_kept body u u"
  by (simp add: svc_unspecified_kept_def)

lemma svc_kept_apply:
  "same_rest upd body \<Longrightarrow>
   (u_profile body = None \<and> u_profile_image body = None \<longrightarrow> u_profile_image upd = None) \<Longrightarrow>
   (u_cover body = None \<and> u_cover_image body = None \<longrightarrow> u_cover_image upd = None) \<Longrightarrow>
   svc_unspecified_kept body u (apply_updates upd u)"
  by (auto simp add: svc_unspecified_kept_def apply_updates_def same_rest_def or_else_def)

lemma svc_frame:
  assumes "findById j d = Some u"
  shows "\<exists>u'. findById j (fst (snd (ctl_updateUser cl i body d))) = Some u'
              \<and> svc_unspecified_kept body u u'"
proof -
  consider "fst (snd (ctl_updateUser cl i body d)) = d"
    | upd where "fst (snd (ctl_updateUser cl i body d)) = updateById i (apply_updates upd) d"
        "same_rest upd body"
        "u_profile body = None \<and> u_profile_image body = None \<longrightarrow> u_profile_image upd = None"
        "u_cover body = None \<and> u_cover_image body = None \<longrightarrow> u_cover_image upd = None"
    using db_ctl_updateUser[of cl i body d] by blast
  then show ?thesis
  proof cases
    case 1
    then show ?thesis using assms svc_kept_refl by simp
  next
    case 2
    have "uid (apply_updates upd v) = uid v" for v by (simp add: apply_updates_def)
    then have "findById j (updateById i (apply_updates upd) d)
               = (if oid i = oid j then Some (apply_updates upd u) else Some u)"
      using assms by (simp add: findById_updateById)
    then show ?thesis using 2(1) svc_kept_refl svc_kept_apply[OF 2(2-4)] by auto
  qed
qed

text \<open>
  Claim C9. Whatever the request, every stored user is still stored after the guarded
  \<^verbatim>\<open>updateUserId\<close> and after the route-mounted \<^verbatim>\<open>updateUser\<close>, with every field the
  input did not specify as it was; in particular both image URLs when the input has
  no image.
\<close>

theorem update_keeps_unspecified_fields:
  assumes "findById j d = Some u"
  shows "(\<exists>u'. findById j (snd (updateUserId cl req d)) = Some u'
              \<and> core_unspecified_kept req u u')
       \<and> (\<exists>u'. findById j (fst (snd (ctl_updateUser cl i body d))) = Some u'
              \<and> svc_unspecified_kept body u u')"
  using core_frame[OF assms] svc_frame[OF assms] by blast

theorem update_keeps_unspecified_fields_witness:
  "findById alice_id [alice, bob] = Some alice
   \<and> snd (updateUserId no_host bio_request [alice, bob]) = [alice\<lparr>bio := ''Gone fishing''\<rparr>, bob]
   \<and> fst (snd (ctl_updateUser no_host alice_id bio_only [alice, bob]))
       = [alice\<lparr>bio := ''Gone fishing''\<rparr>, bob]
   \<and> (\<exists>u'. findById alice_id (snd (updateUserId no_host bio_request [alice, bob])) = Some u'
          \<and> core_unspecified_kept bio_request alice u')
   \<and> (\<exists>u'. findById alice_id (fst (snd (ctl_updateUser no_host alice_id bio_only [alice, bob])))
            = Some u'
          \<and> svc_unspecified_kept bio_only alice u')"
proof -
  have a: "snd (updateUserId no_host bio_request [alice, bob])
             = [alice\<lparr>bio := ''Gone fishing''\<rparr>, bob]"
    by (simp add: updateUserId_def bio_request_def validateAuthentication_def find_alice
        handleImageUploads_def core_updateUser_def valid_ids findById_alice alice_fields
        apply_update_data_def ids_nonempty Let_def)
  have b: "fst (snd (ctl_updateUser no_host alice_id bio_only [alice, bob]))
             = [alice\<lparr>bio := ''Gone fishing''\<rparr>, bob]"
    by (simp add: ctl_updateUser_def svc_getUserById_def valid_ids findById_alice bio_only_def
        slot_input_def rest_of_def svc_updateUser_def apply_updates_def or_else_def alice_fields
        Let_def)
  show ?thesis
    using update_keeps_unspecified_fields [OF findById_alice, of no_host bio_request alice_id bio_only]
      a b findById_alice
    by simp
qed

section \<open>Old and new images\<close>


lemma svc_uploadImage_built:
  "svc_uploadImage cl (built_file p) folder =
     (case upload cl p folder of
        Rejected m \<Rightarrow> (Inl (Error m), [Upload folder p])
      | Resolved url \<Rightarrow>
          if url = []
          then (Inl (Error ''Upload succeeded but no secure URL returned.''), [Upload folder p])
          else (Inr url, [Upload folder p]))"
  by (simp add: svc_uploadImage_def validateFile_def built_file_def allowedTypes_def or_else_def)

lemma snd_svc_uploadImage_built: "snd (svc_uploadImage cl (built_file p) folder) = [Upload folder p]"
  by (simp add: svc_uploadImage_built split: upload_outcome.splits)








lemma uploads:
  "fst (svc_uploadImage profile_only_host (built_file ''aGVsbG8='') ''profiles'')
     = Inr ''https://res.cloudinary.com/demo/image/upload/v1800/user-uploads/new.webp''"
  "fst (svc_uploadImage profile_only_host (built_file ''d29ybGQ='') ''covers'')
     = Inl (Error ''cover rejected'')"
  by (simp_all add: svc_uploadImage_built profile_only_host_def)




end
